theory Spec2Isabelle
  imports Main "HOL-Library.Sublist"
begin

section \<open>Strings\<close>

text \<open>
  Source strings are modelled as \<^typ>\<open>string\<close>, read as ASCII text: one \<^typ>\<open>char\<close> per
  code unit. The string methods the program calls are given their JavaScript meaning on
  such text: \<open>s.startsWith(p)\<close>, \<open>s.endsWith(p)\<close> and \<open>s.includes(p)\<close> are the
  prefix, suffix and contiguous-sublist tests of the list library.
\<close>

definition startsWith :: "string \<Rightarrow> string \<Rightarrow> bool" where
  "startsWith s p = prefix p s"

definition endsWith :: "string \<Rightarrow> string \<Rightarrow> bool" where
  "endsWith s p = suffix p s"

definition includes_str :: "string \<Rightarrow> string \<Rightarrow> bool" where
  "includes_str s p = sublist p s"

text \<open>A string is truthy in a condition exactly when it is present and not empty.\<close>

fun truthy :: "string option \<Rightarrow> bool" where
  "truthy None = False"
| "truthy (Some s) = (s \<noteq> [])"

text \<open>\<open>a || b\<close> on an optional string: the first operand when truthy, else the second.\<close>

definition orElse :: "string option \<Rightarrow> string \<Rightarrow> string" where
  "orElse a b = (case a of None \<Rightarrow> b | Some s \<Rightarrow> if s = [] then b else s)"

definition lowerChar :: "char \<Rightarrow> char" where
  "lowerChar c =
     (case map_of (zip ''ABCDEFGHIJKLMNOPQRSTUVWXYZ'' ''abcdefghijklmnopqrstuvwxyz'') c of
        None \<Rightarrow> c | Some d \<Rightarrow> d)"

definition upperChar :: "char \<Rightarrow> char" where
  "upperChar c =
     (case map_of (zip ''abcdefghijklmnopqrstuvwxyz'' ''ABCDEFGHIJKLMNOPQRSTUVWXYZ'') c of
        None \<Rightarrow> c | Some d \<Rightarrow> d)"

definition toLowerCase :: "string \<Rightarrow> string" where
  "toLowerCase s = map lowerChar s"

definition toUpperCase :: "string \<Rightarrow> string" where
  "toUpperCase s = map upperChar s"

text \<open>
  \<open>s.split(sep)\<close> for a one-character separator: the pieces between the separators,
  empty pieces included, so the result is never empty. \<open>splitAcc\<close> carries the piece
  being read.
\<close>

fun splitAcc :: "char \<Rightarrow> string \<Rightarrow> string \<Rightarrow> string list" where
  "splitAcc sep cur [] = [cur]"
| "splitAcc sep cur (c # cs) =
     (if c = sep then cur # splitAcc sep [] cs else splitAcc sep (cur @ [c]) cs)"

definition split_char :: "char \<Rightarrow> string \<Rightarrow> string list" where
  "split_char sep s = splitAcc sep [] s"

text \<open>\<open>xs.pop()\<close> read for its value: the last element, \<open>undefined\<close> on an empty array.\<close>

fun pop :: "'a list \<Rightarrow> 'a option" where
  "pop [] = None"
| "pop [x] = Some x"
| "pop (x # y # ys) = pop (y # ys)"

text \<open>\<open>xs.join(sep)\<close> on strings.\<close>

fun join :: "string \<Rightarrow> string list \<Rightarrow> string" where
  "join sep [] = []"
| "join sep [x] = x"
| "join sep (x # y # ys) = x @ sep @ join sep (y # ys)"

text \<open>The white space of ASCII: what \<open>\s\<close> matches and \<open>trim\<close> removes.\<close>

definition isSpace :: "char \<Rightarrow> bool" where
  "isSpace c = (c \<in> set [CHR 0x09, CHR 0x0A, CHR 0x0B, CHR 0x0C, CHR 0x0D, CHR 0x20])"

text \<open>
  \<open>s.split(/\s+/)\<close>: the pieces between maximal runs of white space. A run at the start
  or the end of the text leaves an empty piece there. \<open>inRun\<close> says that the character
  before was white space.
\<close>

fun splitWs :: "bool \<Rightarrow> string \<Rightarrow> string \<Rightarrow> string list" where
  "splitWs inRun cur [] = [cur]"
| "splitWs inRun cur (c # cs) =
     (if isSpace c
      then (if inRun then splitWs True cur cs else cur # splitWs True [] cs)
      else splitWs False (cur @ [c]) cs)"

definition split_ws :: "string \<Rightarrow> string list" where
  "split_ws s = splitWs False [] s"

text \<open>A natural number in decimal, as string interpolation renders it.\<close>

definition digitChar :: "nat \<Rightarrow> char" where
  "digitChar d = ''0123456789'' ! d"

fun showNat :: "nat \<Rightarrow> string" where
  "showNat n = (if n < 10 then [digitChar n] else showNat (n div 10) @ [digitChar (n mod 10)])"

declare showNat.simps [simp del]

section \<open>The contract document\<close>

text \<open>
  The types of \<open>types/index.ts\<close>. An optional field is an \<open>option\<close>. An object whose keys
  the program enumerates (\<open>paths\<close>, a path item) is the list of its entries in the order
  \<open>Object.entries\<close> yields them, which for keys such as path templates and verb names is
  the order of the document; an object that is only looked up by key (\<open>responses\<close>,
  \<open>content\<close>) is a map.
\<close>

record SchemaObject =
  schema_type :: "string option"
  schema_ref :: "string option"

record MediaType =
  media_schema :: "SchemaObject option"

record Response =
  resp_description :: string
  resp_content :: "(string \<rightharpoonup> MediaType) option"

record RequestBody =
  body_required :: "bool option"
  body_content :: "string \<rightharpoonup> MediaType"

record Parameter =
  param_name :: string
  param_in :: string
  param_schema :: "SchemaObject option"

record Operation =
  operationId :: "string option"
  summary :: "string option"
  tags :: "string list option"
  parameters :: "Parameter list option"
  requestBody :: "RequestBody option"
  responses :: "string \<rightharpoonup> Response"

text \<open>
  A value under a key of a path item: an object (read as an \<open>Operation\<close>, whose
  \<open>operationId\<close> may be missing) or a value whose \<open>typeof\<close> is not \<open>'object'\<close>.
\<close>

datatype PathEntry = ObjectEntry Operation | ScalarEntry

type_synonym PathItem = "(string \<times> PathEntry) list"

record OpenAPISpec =
  info_title :: string
  paths :: "(string \<times> PathItem) list option"

section \<open>Operation descriptors\<close>

record ParamContext =
  pc_name :: string
  pc_type :: string
  pc_in :: string

record OperationContext =
  oc_operationId :: string
  oc_method :: string
  oc_path :: string
  oc_summary :: string
  oc_hasBody :: bool
  oc_hasParams :: bool
  oc_params :: "ParamContext list"
  oc_returnType :: string

definition schemaToType :: "SchemaObject option \<Rightarrow> string" where
  "schemaToType schema =
     (case schema of
        None \<Rightarrow> ''any''
      | Some s \<Rightarrow>
          if schema_type s = Some ''integer'' then ''number''
          else if schema_type s = Some ''array'' then ''array''
          else orElse (schema_type s) ''any'')"

text \<open>\<open>op.responses['200'] || op.responses['201']\<close>: a response object is truthy.\<close>

definition successResponse :: "Operation \<Rightarrow> Response option" where
  "successResponse op =
     (case responses op ''200'' of Some r \<Rightarrow> Some r | None \<Rightarrow> responses op ''201'')"

definition inferReturnType :: "Operation \<Rightarrow> string" where
  "inferReturnType op =
     (case successResponse op of
           None \<Rightarrow> ''void''
         | Some r \<Rightarrow>
             (case resp_content r of
                None \<Rightarrow> ''void''
              | Some c \<Rightarrow>
                  (case c ''application/json'' of
                     None \<Rightarrow> ''Object''
                   | Some jsonContent \<Rightarrow>
                       (case media_schema jsonContent of
                          None \<Rightarrow> ''Object''
                        | Some schema \<Rightarrow>
                            if truthy (schema_ref schema)
                            then orElse (pop (split_char (CHR ''/'') (the (schema_ref schema))))
                                   ''Object''
                            else ''Object''))))"

definition mkParam :: "Parameter \<Rightarrow> ParamContext" where
  "mkParam p =
     \<lparr> pc_name = param_name p, pc_type = schemaToType (param_schema p), pc_in = param_in p \<rparr>"

definition mkOperation :: "string \<Rightarrow> string \<Rightarrow> string \<Rightarrow> Operation \<Rightarrow> OperationContext" where
  "mkOperation pathKey verb opId op =
     (let params = map mkParam (case parameters op of None \<Rightarrow> [] | Some ps \<Rightarrow> ps)
      in \<lparr> oc_operationId = opId,
           oc_method = toUpperCase verb,
           oc_path = pathKey,
           oc_summary = orElse (summary op) opId,
           oc_hasBody = (requestBody op \<noteq> None),
           oc_hasParams = (length params > 0),
           oc_params = params,
           oc_returnType = inferReturnType op \<rparr>)"

section \<open>Operation extraction\<close>

subsection \<open>The document as loaded\<close>

text \<open>
  \<open>yaml.load(specContent) as OpenAPISpec\<close> checks nothing, and extraction is applied to
  whatever the contract file holds. Beyond the declared types, the loaded document can
  hold \<open>null\<close> in the place of a path item (a path with nothing under it) or of an entry
  of a path item (a verb with nothing under it), and an operation object can lack
  \<open>responses\<close>. A path item is \<open>None\<close> when it is \<open>null\<close>; a value under a key of a path
  item is \<open>null\<close>, an object, or a value whose \<open>typeof\<close> is not \<open>'object'\<close>. The fields
  that are present have their declared types. Reading a property of \<open>null\<close> or of
  \<open>undefined\<close> throws a \<open>TypeError\<close>; an \<open>Error\<close> is one the program throws itself.
\<close>

datatype error = Error string | TypeError

record LoadedOperation =
  ld_operationId :: "string option"
  ld_summary :: "string option"
  ld_tags :: "string list option"
  ld_parameters :: "Parameter list option"
  ld_requestBody :: "RequestBody option"
  ld_responses :: "(string \<rightharpoonup> Response) option"

datatype LoadedEntry = NullEntry | ScalarValue | ObjectValue LoadedOperation

record LoadedSpec =
  ld_title :: string
  ld_paths :: "(string \<times> (string \<times> LoadedEntry) list option) list option"

text \<open>A loaded operation whose \<open>responses\<close> are present, as an \<open>Operation\<close>.\<close>

definition withResponses :: "LoadedOperation \<Rightarrow> (string \<rightharpoonup> Response) \<Rightarrow> Operation" where
  "withResponses op rs =
     \<lparr> operationId = ld_operationId op, summary = ld_summary op, tags = ld_tags op,
       parameters = ld_parameters op, requestBody = ld_requestBody op, responses = rs \<rparr>"

text \<open>
  The descriptor pushed for an entry. Its last field is \<open>this.inferReturnType(op)\<close>,
  which starts by reading \<open>op.responses['200']\<close>: without \<open>responses\<close> that read throws.
\<close>

definition describeOperation :: "string \<Rightarrow> string \<Rightarrow> LoadedOperation \<Rightarrow> error + OperationContext" where
  "describeOperation pathKey verb op =
     (case ld_responses op of
        None \<Rightarrow> Inl TypeError
      | Some rs \<Rightarrow> Inr (mkOperation pathKey verb (the (ld_operationId op)) (withResponses op rs)))"

subsection \<open>The loops\<close>

text \<open>
  The inner loop of \<open>extractOperations\<close> over the entries of one path item, with the
  array \<open>operations\<close> as accumulator. The guard is
  \<open>typeof operation !== 'object' || !operation.operationId\<close>: a value that is not an
  object is skipped; \<open>null\<close> has the \<open>typeof\<close> \<open>'object'\<close>, so the second operand reads
  \<open>null.operationId\<close> and throws; an object without a truthy \<open>operationId\<close> is skipped.
  \<open>filterOperationIds\<close> is \<open>None\<close> when the caller passes no filter; an empty array is a
  filter (it is truthy) and keeps nothing.
\<close>

fun extractPathItem ::
  "string list option \<Rightarrow> string \<Rightarrow> (string \<times> LoadedEntry) list \<Rightarrow> OperationContext list
   \<Rightarrow> error + OperationContext list"
where
  "extractPathItem filterOperationIds pathKey [] operations = Inr operations"
| "extractPathItem filterOperationIds pathKey ((verb, entry) # rest) operations =
     (case entry of
        ScalarValue \<Rightarrow> extractPathItem filterOperationIds pathKey rest operations
      | NullEntry \<Rightarrow> Inl TypeError
      | ObjectValue op \<Rightarrow>
          if \<not> truthy (ld_operationId op)
          then extractPathItem filterOperationIds pathKey rest operations
          else if (case filterOperationIds of
                     None \<Rightarrow> False
                   | Some ids \<Rightarrow> the (ld_operationId op) \<notin> set ids)
          then extractPathItem filterOperationIds pathKey rest operations
          else (case describeOperation pathKey verb op of
                  Inl e \<Rightarrow> Inl e
                | Inr d \<Rightarrow> extractPathItem filterOperationIds pathKey rest (operations @ [d])))"

text \<open>
  The outer loop over the entries of \<open>paths\<close>. \<open>Object.entries(pathItem)\<close> throws when the
  path item is \<open>null\<close>.
\<close>

fun extractPaths ::
  "string list option \<Rightarrow> (string \<times> (string \<times> LoadedEntry) list option) list
   \<Rightarrow> OperationContext list \<Rightarrow> error + OperationContext list"
where
  "extractPaths filterOperationIds [] operations = Inr operations"
| "extractPaths filterOperationIds ((pathKey, pathItem) # rest) operations =
     (case pathItem of
        None \<Rightarrow> Inl TypeError
      | Some entries \<Rightarrow>
          (case extractPathItem filterOperationIds pathKey entries operations of
             Inl e \<Rightarrow> Inl e
           | Inr operations' \<Rightarrow> extractPaths filterOperationIds rest operations'))"

text \<open>\<open>extractOperations\<close>; \<open>spec.paths || {}\<close> makes a missing \<open>paths\<close> an empty object.\<close>

definition extractOperations ::
  "LoadedSpec \<Rightarrow> string list option \<Rightarrow> error + OperationContext list" where
  "extractOperations spec filterOperationIds =
     extractPaths filterOperationIds (case ld_paths spec of None \<Rightarrow> [] | Some ps \<Rightarrow> ps) []"

subsection \<open>Documents of the declared types, as loaded\<close>

definition loadedOperation :: "Operation \<Rightarrow> LoadedOperation" where
  "loadedOperation op =
     \<lparr> ld_operationId = operationId op, ld_summary = summary op, ld_tags = tags op,
       ld_parameters = parameters op, ld_requestBody = requestBody op,
       ld_responses = Some (responses op) \<rparr>"

fun loadedEntry :: "PathEntry \<Rightarrow> LoadedEntry" where
  "loadedEntry (ObjectEntry op) = ObjectValue (loadedOperation op)"
| "loadedEntry ScalarEntry = ScalarValue"

definition loadedSpec :: "OpenAPISpec \<Rightarrow> LoadedSpec" where
  "loadedSpec spec =
     \<lparr> ld_title = info_title spec,
       ld_paths = map_option
         (map (\<lambda>(pathKey, item). (pathKey, Some (map (\<lambda>(verb, entry). (verb, loadedEntry entry)) item))))
         (paths spec) \<rparr>"

subsection \<open>Extraction, stated over the well-formed operations\<close>

text \<open>
  A well-formed entry is an object with a non-empty \<open>operationId\<close>.
  \<open>wellFormedLoaded\<close> lists the well-formed entries of a loaded document with their
  path and verb, in traversal order: the path items in their order and, within each,
  the entries in their order. \<open>loadedDescriptor\<close> is the descriptor built for such an
  entry when it has \<open>responses\<close>.
\<close>

definition wellFormedLoadedEntries :: "(string \<times> LoadedEntry) list \<Rightarrow> (string \<times> LoadedOperation) list" where
  "wellFormedLoadedEntries entries =
     concat (map (\<lambda>(verb, entry).
        case entry of
          ObjectValue op \<Rightarrow> if truthy (ld_operationId op) then [(verb, op)] else []
        | _ \<Rightarrow> []) entries)"

definition wellFormedLoaded :: "LoadedSpec \<Rightarrow> (string \<times> string \<times> LoadedOperation) list" where
  "wellFormedLoaded doc =
     concat (map (\<lambda>(pathKey, item).
                map (\<lambda>(verb, op). (pathKey, verb, op))
                  (wellFormedLoadedEntries (case item of None \<Rightarrow> [] | Some entries \<Rightarrow> entries)))
       (case ld_paths doc of None \<Rightarrow> [] | Some ps \<Rightarrow> ps))"

definition loadedId :: "string \<times> string \<times> LoadedOperation \<Rightarrow> string" where
  "loadedId e = the (ld_operationId (snd (snd e)))"

definition loadedDescriptor :: "string \<times> string \<times> LoadedOperation \<Rightarrow> OperationContext" where
  "loadedDescriptor e =
     mkOperation (fst e) (fst (snd e)) (loadedId e)
       (withResponses (snd (snd e)) (the (ld_responses (snd (snd e)))))"

text \<open>
  The documents on which no read throws: no path item and no entry is \<open>null\<close>, and every
  entry with a non-empty \<open>operationId\<close> has \<open>responses\<close>.
\<close>

definition soundEntry :: "LoadedEntry \<Rightarrow> bool" where
  "soundEntry entry =
     (case entry of
        NullEntry \<Rightarrow> False
      | ScalarValue \<Rightarrow> True
      | ObjectValue op \<Rightarrow> if truthy (ld_operationId op) then ld_responses op \<noteq> None else True)"

definition soundDocument :: "LoadedSpec \<Rightarrow> bool" where
  "soundDocument doc =
     list_all (\<lambda>(pathKey, item).
                 case item of
                   None \<Rightarrow> False
                 | Some entries \<Rightarrow> list_all (\<lambda>(verb, entry). soundEntry entry) entries)
       (case ld_paths doc of None \<Rightarrow> [] | Some ps \<Rightarrow> ps)"

text \<open>
  The same listing for a document of the declared types, which the planner reads:
  \<open>wellFormedOperations\<close> lists its well-formed entries in traversal order, and
  \<open>descriptorOf\<close> is the descriptor of such an entry.
\<close>

definition wellFormedEntries :: "PathItem \<Rightarrow> (string \<times> Operation) list" where
  "wellFormedEntries item =
     concat (map (\<lambda>(verb, entry).
        case entry of
          ScalarEntry \<Rightarrow> []
        | ObjectEntry op \<Rightarrow> if truthy (operationId op) then [(verb, op)] else []) item)"

definition wellFormedOperations :: "OpenAPISpec \<Rightarrow> (string \<times> string \<times> Operation) list" where
  "wellFormedOperations spec =
     concat (map (\<lambda>(pathKey, item). map (\<lambda>(verb, op). (pathKey, verb, op)) (wellFormedEntries item))
       (case paths spec of None \<Rightarrow> [] | Some ps \<Rightarrow> ps))"

definition idOf :: "string \<times> string \<times> Operation \<Rightarrow> string" where
  "idOf e = the (operationId (snd (snd e)))"

definition descriptorOf :: "string \<times> string \<times> Operation \<Rightarrow> OperationContext" where
  "descriptorOf e = mkOperation (fst e) (fst (snd e)) (idOf e) (snd (snd e))"

definition keeps :: "string list option \<Rightarrow> string \<Rightarrow> bool" where
  "keeps filterOperationIds opId =
     (case filterOperationIds of None \<Rightarrow> True | Some ids \<Rightarrow> opId \<in> set ids)"

subsection \<open>Return types, stated over the selected response\<close>

text \<open>
  The trailing path segment of a reference: what follows its last \<open>/\<close>, the whole
  text when it has none. \<open>namedSchema\<close> is the named type a content map resolves to:
  the non-empty trailing segment of the \<open>$ref\<close> of its JSON schema.
\<close>

definition trailingSegment :: "string \<Rightarrow> string" where
  "trailingSegment s = rev (takeWhile (\<lambda>c. c \<noteq> CHR ''/'') (rev s))"

definition namedSchema :: "(string \<rightharpoonup> MediaType) \<Rightarrow> string option" where
  "namedSchema c =
     (case c ''application/json'' of
        None \<Rightarrow> None
      | Some m \<Rightarrow>
          (case media_schema m of
             None \<Rightarrow> None
           | Some s \<Rightarrow>
               (case schema_ref s of
                  None \<Rightarrow> None
                | Some r \<Rightarrow> if trailingSegment r = [] then None else Some (trailingSegment r))))"

section \<open>Intent matching and task planning\<close>

text \<open>
  The planner is modelled on contract documents of the declared types
  (\<open>OpenAPISpec\<close>): its claims are about well-typed contracts.
\<close>

datatype TaskStatus = Pending | InProgress | Completed

record Task =
  task_id :: string
  task_title :: string
  task_description :: string
  task_status :: TaskStatus
  task_operations :: "string list"

definition actionKeywords :: "(string \<times> string list) list" where
  "actionKeywords =
     [(''create'', [''create'', ''add'', ''new'', ''make'', ''post'']),
      (''list'', [''list'', ''get all'', ''fetch all'', ''show all'', ''all'']),
      (''get'', [''get'', ''fetch'', ''retrieve'', ''find'', ''show'', ''read'']),
      (''update'', [''update'', ''modify'', ''edit'', ''change'', ''put'', ''patch'']),
      (''delete'', [''delete'', ''remove'', ''destroy''])]"

text \<open>The set \<open>matchedActions\<close>, as the list of its members (the table's keys are distinct).\<close>

definition matchedActions :: "string \<Rightarrow> string list" where
  "matchedActions intentLower =
     map fst (filter (\<lambda>(action, keywords). list_ex (\<lambda>kw. includes_str intentLower kw) keywords)
       actionKeywords)"

definition entityMatch :: "string list \<Rightarrow> string \<Rightarrow> Operation \<Rightarrow> bool" where
  "entityMatch intentWords pathKey op =
     (let opId = toLowerCase (the (operationId op));
          opSummary = toLowerCase (orElse (summary op) '''');
          opTags = map toLowerCase (case tags op of None \<Rightarrow> [] | Some ts \<Rightarrow> ts);
          opPath = toLowerCase pathKey
      in list_ex (\<lambda>word. length word > 2 \<and>
            (includes_str opId word \<or> includes_str opPath word \<or> includes_str opSummary word \<or>
             list_ex (\<lambda>tag. includes_str tag word) opTags)) intentWords)"

definition actionMatch :: "string list \<Rightarrow> string \<Rightarrow> string \<Rightarrow> bool" where
  "actionMatch actions pathKey verb =
     ((''create'' \<in> set actions \<and> verb = ''post'') \<or>
      (''list'' \<in> set actions \<and> verb = ''get'' \<and> \<not> includes_str pathKey ''{'') \<or>
      (''get'' \<in> set actions \<and> verb = ''get'') \<or>
      (''update'' \<in> set actions \<and> (verb = ''put'' \<or> verb = ''patch'')) \<or>
      (''delete'' \<in> set actions \<and> verb = ''delete''))"

definition directMatch :: "string list \<Rightarrow> Operation \<Rightarrow> bool" where
  "directMatch intentWords op =
     list_ex (\<lambda>word. length word > 3 \<and> includes_str (toLowerCase (the (operationId op))) word)
       intentWords"

text \<open>\<open>if (!xs.includes(x)) xs.push(x)\<close>.\<close>

definition pushNew :: "string list \<Rightarrow> string \<Rightarrow> string list" where
  "pushNew xs x = (if x \<in> set xs then xs else xs @ [x])"

text \<open>The body of the inner loop for one entry with an \<open>operationId\<close>: both checks, in turn.\<close>

definition matchOperation ::
  "string list \<Rightarrow> string list \<Rightarrow> string \<Rightarrow> string \<Rightarrow> Operation \<Rightarrow> string list \<Rightarrow> string list"
where
  "matchOperation intentWords actions pathKey verb op matchedOperations =
     (let m1 = (if entityMatch intentWords pathKey op \<and>
                   (actionMatch actions pathKey verb \<or> length actions = 0)
                then pushNew matchedOperations (the (operationId op))
                else matchedOperations)
      in if directMatch intentWords op then pushNew m1 (the (operationId op)) else m1)"

fun matchPathItem ::
  "string list \<Rightarrow> string list \<Rightarrow> string \<Rightarrow> PathItem \<Rightarrow> string list \<Rightarrow> string list"
where
  "matchPathItem intentWords actions pathKey [] matchedOperations = matchedOperations"
| "matchPathItem intentWords actions pathKey ((verb, entry) # rest) matchedOperations =
     (case entry of
        ScalarEntry \<Rightarrow> matchPathItem intentWords actions pathKey rest matchedOperations
      | ObjectEntry op \<Rightarrow>
          if \<not> truthy (operationId op)
          then matchPathItem intentWords actions pathKey rest matchedOperations
          else matchPathItem intentWords actions pathKey rest
                 (matchOperation intentWords actions pathKey verb op matchedOperations))"

fun matchPaths ::
  "string list \<Rightarrow> string list \<Rightarrow> (string \<times> PathItem) list \<Rightarrow> string list \<Rightarrow> string list"
where
  "matchPaths intentWords actions [] matchedOperations = matchedOperations"
| "matchPaths intentWords actions ((pathKey, pathItem) # rest) matchedOperations =
     matchPaths intentWords actions rest
       (matchPathItem intentWords actions pathKey pathItem matchedOperations)"

definition extractTaskTitle :: "string \<Rightarrow> string" where
  "extractTaskTitle intent =
     (let title = toUpperCase (take 1 intent) @ drop 1 intent
      in if length title > 50 then take 47 title @ ''...'' else title)"

text \<open>
  \<open>analyzeIntentAndCreateTasks\<close>. The clock the task id is read from (\<open>Date.now()\<close>, in
  milliseconds) is the argument \<open>now\<close>.
\<close>

definition analyzeIntentAndCreateTasks :: "nat \<Rightarrow> string \<Rightarrow> OpenAPISpec \<Rightarrow> Task list" where
  "analyzeIntentAndCreateTasks now intent spec =
     (let intentLower = toLowerCase intent;
          intentWords = split_ws intentLower;
          actions = matchedActions intentLower;
          matchedOperations =
            matchPaths intentWords actions (case paths spec of None \<Rightarrow> [] | Some ps \<Rightarrow> ps) []
      in if length matchedOperations > 0
         then [\<lparr> task_id = ''task-'' @ showNat now,
                 task_title = extractTaskTitle intent,
                 task_description = ''Implement: '' @ intent,
                 task_status = Pending,
                 task_operations = matchedOperations \<rparr>]
         else [])"

subsection \<open>The matcher, stated over the well-formed operations\<close>

definition operationMatches :: "string \<Rightarrow> string \<times> string \<times> Operation \<Rightarrow> bool" where
  "operationMatches intent e =
     (let intentWords = split_ws (toLowerCase intent);
          actions = matchedActions (toLowerCase intent)
      in (entityMatch intentWords (fst e) (snd (snd e)) \<and>
            (actionMatch actions (fst e) (fst (snd e)) \<or> actions = []))
         \<or> directMatch intentWords (snd (snd e)))"

text \<open>
  \<open>firstSeen xs\<close> keeps the first occurrence of every element of \<open>xs\<close>, in the order of
  \<open>xs\<close>.
\<close>

definition firstSeen :: "'a list \<Rightarrow> 'a list" where
  "firstSeen xs = rev (remdups (rev xs))"

definition matchedIds :: "string \<Rightarrow> OpenAPISpec \<Rightarrow> string list" where
  "matchedIds intent spec =
     firstSeen (map idOf (filter (operationMatches intent) (wellFormedOperations spec)))"

section \<open>Guardrails\<close>

subsection \<open>The rule patterns\<close>

text \<open>
  The regular expressions of the rule table use literals, the classes \<open>\s\<close>,
  \<open>[\.\(]\<close> and \<open>[^"']\<close>, the repetitions \<open>*\<close> and \<open>+\<close> of a class, \<open>?\<close>,
  alternation, a leading \<open>\b\<close>, and the flag \<open>i\<close>. \<open>leftovers r s\<close> lists what remains
  of \<open>s\<close> after each way of matching \<open>r\<close> at its start; \<open>r\<close> matches there when the list
  is not empty.
\<close>

datatype charClass = Ws | OneOf "char list" | NoneOf "char list"

datatype rx =
    Lit string
  | Cls charClass
  | Star charClass
  | Plus charClass
  | Opt rx
  | Alt rx rx
  | Seq rx rx

fun inClass :: "charClass \<Rightarrow> char \<Rightarrow> bool" where
  "inClass Ws c = isSpace c"
| "inClass (OneOf cs) c = (c \<in> set cs)"
| "inClass (NoneOf cs) c = (c \<notin> set cs)"

fun starLeftovers :: "charClass \<Rightarrow> string \<Rightarrow> string list" where
  "starLeftovers k [] = [[]]"
| "starLeftovers k (c # cs) = (c # cs) # (if inClass k c then starLeftovers k cs else [])"

fun leftovers :: "rx \<Rightarrow> string \<Rightarrow> string list" where
  "leftovers (Lit l) s = (if prefix l s then [drop (length l) s] else [])"
| "leftovers (Cls k) s = (case s of [] \<Rightarrow> [] | c # cs \<Rightarrow> if inClass k c then [cs] else [])"
| "leftovers (Star k) s = starLeftovers k s"
| "leftovers (Plus k) s =
     (case s of [] \<Rightarrow> [] | c # cs \<Rightarrow> if inClass k c then starLeftovers k cs else [])"
| "leftovers (Opt r) s = leftovers r s @ [s]"
| "leftovers (Alt r1 r2) s = leftovers r1 s @ leftovers r2 s"
| "leftovers (Seq r1 r2) s = concat (map (leftovers r2) (leftovers r1 s))"

definition isWordChar :: "char \<Rightarrow> bool" where
  "isWordChar c =
     (c \<in> set ''abcdefghijklmnopqrstuvwxyzABCDEFGHIJKLMNOPQRSTUVWXYZ0123456789_'')"

text \<open>
  A pattern: whether it starts with \<open>\b\<close>, whether it has the flag \<open>i\<close>, and its body.
  The body of a pattern with the flag \<open>i\<close> is written in lower case and is matched
  against the line in lower case.
\<close>

record pattern =
  wordStart :: bool
  ignoreCase :: bool
  pat_body :: rx

text \<open>
  \<open>searchFrom\<close> tries every position of the line from left to right; \<open>prevWord\<close> says
  whether the character before the position is a word character. \<open>\b\<close> holds at a
  position when exactly one of the characters around it is a word character.
\<close>

fun searchFrom :: "bool \<Rightarrow> rx \<Rightarrow> bool \<Rightarrow> string \<Rightarrow> bool" where
  "searchFrom wb r prevWord [] = ((if wb then prevWord else True) \<and> leftovers r [] \<noteq> [])"
| "searchFrom wb r prevWord (c # cs) =
     (((if wb then prevWord \<noteq> isWordChar c else True) \<and> leftovers r (c # cs) \<noteq> [])
      \<or> searchFrom wb r (isWordChar c) cs)"

text \<open>\<open>pattern.test(line)\<close>; the patterns have no \<open>g\<close> flag, so a test keeps no state.\<close>

definition test :: "pattern \<Rightarrow> string \<Rightarrow> bool" where
  "test p line =
     searchFrom (wordStart p) (pat_body p) False (if ignoreCase p then toLowerCase line else line)"

definition plain :: "rx \<Rightarrow> pattern" where
  "plain r = \<lparr> wordStart = False, ignoreCase = False, pat_body = r \<rparr>"

subsection \<open>The rule table\<close>

record rule =
  rule_name :: string
  rule_pattern :: pattern
  rule_message :: string
  languages :: "string list option"
  skipPatterns :: "pattern list option"

definition guardrailRules :: "rule list" where
  \<open>guardrailRules =
     [\<lparr> rule_name = ''no-fetch'',
        rule_pattern = \<lparr> wordStart = True, ignoreCase = False,
                         pat_body = Seq (Lit ''fetch'') (Seq (Star Ws) (Lit ''('')) \<rparr>,
        rule_message = ''Direct fetch() calls are not allowed. Use the SDK instead.'',
        languages = Some [''typescript'', ''javascript''],
        skipPatterns = None \<rparr>,
      \<lparr> rule_name = ''no-axios'',
        rule_pattern = \<lparr> wordStart = True, ignoreCase = False,
                         pat_body = Seq (Lit ''axios'') (Seq (Star Ws) (Cls (OneOf ''.(''))) \<rparr>,
        rule_message = ''Direct axios calls are not allowed. Use the SDK instead.'',
        languages = Some [''typescript'', ''javascript''],
        skipPatterns = None \<rparr>,
      \<lparr> rule_name = ''no-http-client'',
        rule_pattern = plain (Seq (Lit ''new'') (Seq (Plus Ws)
                         (Seq (Lit ''HttpClient'') (Seq (Star Ws) (Lit ''(''))))),
        rule_message = ''Direct HttpClient usage is not allowed. Use the SDK instead.'',
        languages = Some [''java''],
        skipPatterns = None \<rparr>,
      \<lparr> rule_name = ''no-okhttp-direct'',
        rule_pattern = plain (Seq (Lit ''new'') (Seq (Plus Ws)
                         (Seq (Lit ''OkHttpClient'') (Seq (Star Ws) (Lit ''(''))))),
        rule_message = ''Direct OkHttpClient usage is not allowed. Use the SDK instead.'',
        languages = Some [''java''],
        skipPatterns = None \<rparr>,
      \<lparr> rule_name = ''no-requests'',
        rule_pattern = plain (Seq (Lit ''requests.'')
                         (Seq (Alt (Lit ''get'') (Alt (Lit ''post'') (Alt (Lit ''put'')
                                (Alt (Lit ''delete'') (Lit ''patch'')))))
                           (Seq (Star Ws) (Lit ''('')))),
        rule_message = ''Direct requests calls are not allowed. Use the SDK instead.'',
        languages = Some [''python''],
        skipPatterns = None \<rparr>,
      \<lparr> rule_name = ''no-urllib'',
        rule_pattern = plain (Seq (Lit ''urllib.'') (Alt (Lit ''request'') (Lit ''urlopen''))),
        rule_message = ''Direct urllib usage is not allowed. Use the SDK instead.'',
        languages = Some [''python''],
        skipPatterns = None \<rparr>,
      \<lparr> rule_name = ''no-raw-url'',
        rule_pattern = plain (Seq (Cls (OneOf [CHR 0x22, CHR 0x27]))
                         (Seq (Lit ''http'') (Seq (Opt (Lit ''s'')) (Seq (Lit ''://'')
                           (Seq (Plus (NoneOf [CHR 0x22, CHR 0x27]))
                             (Cls (OneOf [CHR 0x22, CHR 0x27]))))))),
        rule_message = ''Hardcoded URLs detected. API calls should go through the SDK.'',
        languages = None,
        skipPatterns = Some
          [\<lparr> wordStart = False, ignoreCase = True, pat_body = Lit ''xmlns'' \<rparr>,
           \<lparr> wordStart = False, ignoreCase = True, pat_body = Lit ''xsi:'' \<rparr>,
           \<lparr> wordStart = False, ignoreCase = True, pat_body = Lit ''schema'' \<rparr>,
           plain (Lit ''setBasePath''),
           plain (Lit ''basePath''),
           plain (Seq (Lit ''Configuration'') (Seq (Star Ws) (Lit ''('')))] \<rparr>]\<close>

subsection \<open>Scanning\<close>

text \<open>\<open>s.trim()\<close>: white space removed at both ends.\<close>

definition trim :: "string \<Rightarrow> string" where
  "trim s = rev (dropWhile isSpace (rev (dropWhile isSpace s)))"

definition isComment :: "string \<Rightarrow> string \<Rightarrow> bool" where
  \<open>isComment line language =
     (let trimmed = trim line
      in if language = ''java'' \<or> language = ''typescript'' \<or> language = ''javascript''
         then startsWith trimmed ''//'' \<or> startsWith trimmed ''*'' \<or> startsWith trimmed ''/*''
         else if language = ''python''
         then startsWith trimmed ''#'' \<or> startsWith trimmed [CHR 0x22, CHR 0x22, CHR 0x22]
              \<or> startsWith trimmed [CHR 0x27, CHR 0x27, CHR 0x27]
         else False)\<close>

definition inferLanguage :: "string \<Rightarrow> string" where
  "inferLanguage filePath =
     (if endsWith filePath ''.java'' then ''java''
      else if endsWith filePath ''.ts'' \<or> endsWith filePath ''.tsx'' then ''typescript''
      else if endsWith filePath ''.js'' \<or> endsWith filePath ''.jsx'' then ''javascript''
      else if endsWith filePath ''.py'' then ''python''
      else ''unknown'')"

text \<open>\<open>rule.languages && !rule.languages.includes(language)\<close> is the test that skips a rule.\<close>

definition applicable :: "rule \<Rightarrow> string \<Rightarrow> bool" where
  "applicable r language =
     (case languages r of None \<Rightarrow> True | Some ls \<Rightarrow> language \<in> set ls)"

text \<open>\<open>rule.skipPatterns?.some(skip => skip.test(line)) ?? false\<close>.\<close>

definition shouldSkip :: "rule \<Rightarrow> string \<Rightarrow> bool" where
  "shouldSkip r line =
     (case skipPatterns r of None \<Rightarrow> False | Some ps \<Rightarrow> list_ex (\<lambda>skip. test skip line) ps)"

text \<open>The text of a violation of rule \<open>r\<close> at index \<open>i\<close> (line \<open>i + 1\<close>).\<close>

definition violationText :: "rule \<Rightarrow> string option \<Rightarrow> nat \<Rightarrow> string" where
  "violationText r filePath i =
     (let location = (if truthy filePath then the filePath @ '':'' @ showNat (i + 1)
                      else ''line '' @ showNat (i + 1))
      in ''['' @ rule_name r @ ''] '' @ location @ '': '' @ rule_message r)"

text \<open>The loop over the lines for one rule, from index \<open>i\<close>, with \<open>violations\<close> as accumulator.\<close>

fun scanLines ::
  "rule \<Rightarrow> string \<Rightarrow> string option \<Rightarrow> nat \<Rightarrow> string list \<Rightarrow> string list \<Rightarrow> string list"
where
  "scanLines r language filePath i [] violations = violations"
| "scanLines r language filePath i (line # rest) violations =
     (if isComment line language
      then scanLines r language filePath (i + 1) rest violations
      else if test (rule_pattern r) line \<and> \<not> shouldSkip r line
      then scanLines r language filePath (i + 1) rest (violations @ [violationText r filePath i])
      else scanLines r language filePath (i + 1) rest violations)"

fun scanRules ::
  "rule list \<Rightarrow> string \<Rightarrow> string option \<Rightarrow> string list \<Rightarrow> string list \<Rightarrow> string list"
where
  "scanRules [] language filePath lines violations = violations"
| "scanRules (r # rs) language filePath lines violations =
     (if \<not> applicable r language
      then scanRules rs language filePath lines violations
      else scanRules rs language filePath lines (scanLines r language filePath 0 lines violations))"

text \<open>\<open>validateFile\<close>; the rule table of the object is the first argument.\<close>

definition validateFile :: "rule list \<Rightarrow> string \<Rightarrow> string \<Rightarrow> string option \<Rightarrow> string list" where
  "validateFile rules content language filePath =
     scanRules rules language filePath (split_char (CHR 0x0A) content) []"

text \<open>\<open>validate\<close> over the entries of a file map, with \<open>violations\<close> as accumulator.\<close>

fun validateEntries :: "rule list \<Rightarrow> (string \<times> string) list \<Rightarrow> string list \<Rightarrow> string list" where
  "validateEntries rules [] violations = violations"
| "validateEntries rules ((filePath, content) # rest) violations =
     (if endsWith filePath ''.xml'' \<or> endsWith filePath ''.pom''
      then validateEntries rules rest violations
      else validateEntries rules rest
             (violations @ validateFile rules content (inferLanguage filePath) (Some filePath)))"

definition validate :: "rule list \<Rightarrow> (string \<times> string) list \<Rightarrow> string list" where
  "validate rules files = validateEntries rules files []"

subsection \<open>Scanning, stated line by line\<close>

text \<open>
  A rule reports a line of a file of a given language when it applies to the language,
  the line is not a comment, the line matches the forbidden pattern and no skip pattern
  matches it.
\<close>

definition reportsLine :: "rule \<Rightarrow> string \<Rightarrow> string \<Rightarrow> bool" where
  "reportsLine r language line =
     (applicable r language \<and> \<not> isComment line language \<and> test (rule_pattern r) line
      \<and> \<not> shouldSkip r line)"

definition skippedFile :: "string \<Rightarrow> bool" where
  "skippedFile filePath = (endsWith filePath ''.xml'' \<or> endsWith filePath ''.pom'')"

section \<open>Emission\<close>

text \<open>
  The emitter of the consumer generator. A file map is the list of its entries in
  insertion order. Every method of the class receives the object it is called on,
  \<open>this\<close>, whose only field is the table \<open>templates\<close>. The text of a template literal
  is written line by line, \<open>concat\<close> joining the lines and the interpolated values.
\<close>

datatype SupportedLanguage = Java | TypeScript | Python

record ConsumerGenerator =
  templates :: "SupportedLanguage \<Rightarrow> (string \<rightharpoonup> (string \<Rightarrow> string))"

text \<open>The constructor: every language starts with an empty table.\<close>

definition newConsumerGenerator :: ConsumerGenerator where
  "newConsumerGenerator = \<lparr> templates = (\<lambda>language. Map.empty) \<rparr>"

record EmitContext =
  ctx_packageName :: string
  ctx_apiClassName :: string

subsection \<open>Helpers\<close>

definition toJavaType :: "string \<Rightarrow> string" where
  "toJavaType t =
     (if t = ''number'' then ''Integer''
      else if t = ''string'' then ''String''
      else if t = ''boolean'' then ''Boolean''
      else if t = ''array'' then ''List<?>''
      else ''Object'')"

definition toTypeScriptType :: "string \<Rightarrow> string" where
  "toTypeScriptType t =
     (if t = ''number'' then ''number''
      else if t = ''string'' then ''string''
      else if t = ''boolean'' then ''boolean''
      else if t = ''array'' then ''any[]''
      else ''any'')"

definition toPythonType :: "string \<Rightarrow> string" where
  "toPythonType t =
     (if t = ''number'' then ''int''
      else if t = ''string'' then ''str''
      else if t = ''boolean'' then ''bool''
      else if t = ''array'' then ''list''
      else ''any'')"

definition isUpperChar :: "char \<Rightarrow> bool" where
  "isUpperChar c = (c \<in> set ''ABCDEFGHIJKLMNOPQRSTUVWXYZ'')"

definition isAlnumChar :: "char \<Rightarrow> bool" where
  "isAlnumChar c =
     (c \<in> set ''abcdefghijklmnopqrstuvwxyzABCDEFGHIJKLMNOPQRSTUVWXYZ0123456789'')"

text \<open>
  \<open>str.replace(/([A-Z])/g, '_$1').toLowerCase().replace(/^_/, '')\<close>.
\<close>

definition toSnakeCase :: "string \<Rightarrow> string" where
  "toSnakeCase str =
     (let marked = concat (map (\<lambda>c. if isUpperChar c then [CHR ''_'', c] else [c]) str);
          lowered = toLowerCase marked
      in case lowered of [] \<Rightarrow> [] | c # cs \<Rightarrow> if c = CHR ''_'' then cs else c # cs)"

text \<open>
  \<open>title.replace(/[^a-zA-Z0-9]/g, '').replace(/^./, char => char.toUpperCase()) || 'Default'\<close>.
\<close>

definition deriveApiClassName :: "string \<Rightarrow> string" where
  "deriveApiClassName title =
     (let stripped = filter isAlnumChar title;
          capitalised = (case stripped of [] \<Rightarrow> [] | c # cs \<Rightarrow> upperChar c # cs)
      in if capitalised = [] then ''Default'' else capitalised)"

subsection \<open>The query block of a Java method\<close>

text \<open>
  For its query parameters, \<open>generateJavaService\<close> emits one guarded statement per
  parameter, in declaration order:
  \<^verbatim>\<open>if (NAME != null) { query.append(SEP).append("NAME=").append(NAME); }\<close>
  where the literal \<open>SEP\<close> is fixed when the code is generated:
  \<open>""\<close> for the parameter at index 0 and \<open>"&"\<close> for every other one. \<open>queryAppend\<close> is
  such a statement, \<open>renderQueryAppend\<close> its text, and \<open>runQueryAppend\<close> what it does to
  the string builder \<open>query\<close> when the method runs; \<open>env\<close> gives each argument as the
  text \<open>append\<close> adds for it, \<open>None\<close> for \<open>null\<close>.
\<close>

record queryAppend =
  qa_name :: string
  qa_separator :: string

definition queryAppends :: "ParamContext list \<Rightarrow> queryAppend list" where
  "queryAppends queryParams =
     map (\<lambda>ip. \<lparr> qa_name = pc_name (snd ip),
                  qa_separator = (if fst ip = 0 then '''' else ''&'') \<rparr>)
       (enumerate 0 queryParams)"

definition renderQueryAppend :: "queryAppend \<Rightarrow> string" where
  \<open>renderQueryAppend a =
     concat
      [''        if ('',
       qa_name a,
       '' != null) {\<newline>'',
       ''            query.append('',
       ''"'' @ qa_separator a @ ''"'',
       '').append("'',
       qa_name a,
       ''=").append('',
       qa_name a,
       '');\<newline>'',
       ''        }'']\<close>

definition runQueryAppend :: "(string \<rightharpoonup> string) \<Rightarrow> queryAppend \<Rightarrow> string \<Rightarrow> string" where
  "runQueryAppend env a query =
     (case env (qa_name a) of
        None \<Rightarrow> query
      | Some v \<Rightarrow> query @ qa_separator a @ (qa_name a @ ''='') @ v)"

text \<open>
  The whole block: the statements in turn on an empty builder, then
  \<^verbatim>\<open>if (query.length() > 0) { path += "?" + query.toString(); }\<close>
\<close>

definition runQuery :: "queryAppend list \<Rightarrow> (string \<rightharpoonup> string) \<Rightarrow> string \<Rightarrow> string" where
  "runQuery appends env path =
     (let query = fold (runQueryAppend env) appends []
      in if length query > 0 then path @ ''?'' @ query else path)"

definition renderQueryCode :: "ParamContext list \<Rightarrow> string" where
  \<open>renderQueryCode queryParams =
     (if length queryParams > 0
      then concat
            [''\<newline>'',
             ''        StringBuilder query = new StringBuilder();\<newline>'',
             join ''\<newline>'' (map renderQueryAppend (queryAppends queryParams)),
             ''\<newline>'',
             ''        if (query.length() > 0) {\<newline>'',
             ''            path += "?" + query.toString();\<newline>'',
             ''        }'']
      else [])\<close>

subsection \<open>The status handling of the Java client\<close>

text \<open>
  The end of the emitted \<open>sendRequest\<close>:
  \<^verbatim>\<open>if (statusCode >= 200 && statusCode < 300) { return responseBody; }
else if (statusCode == 204) { return null; }
else { throw new RuntimeException("HTTP " + statusCode + ": " + responseBody); }\<close>
  A returned \<open>null\<close> is \<open>None\<close>.
\<close>

datatype javaError = RuntimeException string

definition showInt :: "int \<Rightarrow> string" where
  "showInt i = (if i < 0 then ''-'' @ showNat (nat (- i)) else showNat (nat i))"

definition handleResponse :: "int \<Rightarrow> string \<Rightarrow> javaError + string option" where
  "handleResponse statusCode responseBody =
     (if statusCode \<ge> 200 \<and> statusCode < 300 then Inr (Some responseBody)
      else if statusCode = 204 then Inr None
      else Inl (RuntimeException (''HTTP '' @ showInt statusCode @ '': '' @ responseBody)))"

subsection \<open>Java\<close>

definition javaOperationCall :: "OperationContext \<Rightarrow> string" where
  \<open>javaOperationCall op =
     (let params = join '', '' (map (\<lambda>p. ''"example-'' @ pc_name p @ ''"'')
                                (filter (\<lambda>p. pc_in p = ''path'') (oc_params op)))
      in concat
          [''        // '',
           oc_summary op,
           ''\<newline>'',
           ''        // '',
           (if oc_returnType op \<noteq> ''void'' then ''var result = '' else []),
           ''apiClient.'',
           oc_operationId op,
           ''('',
           params,
           '');''])\<close>

definition generateJavaApplication ::
  "ConsumerGenerator \<Rightarrow> OperationContext list \<Rightarrow> EmitContext \<Rightarrow> string" where
  \<open>generateJavaApplication this ops ctx =
     (let operationCalls = join ''\<newline>\<newline>'' (map javaOperationCall ops)
      in concat
          [''/**\<newline>'',
           '' * REST Client Application\<newline>'',
           '' * \<newline>'',
           '' * Generated by Origo-Spec-Kit from OpenAPI specification.\<newline>'',
           '' * This code contains complete HTTP client implementation.\<newline>'',
           '' */\<newline>'',
           ''package client;\<newline>'',
           ''\<newline>'',
           ''public class Application {\<newline>'',
           ''    \<newline>'',
           ''    private final ApiClient apiClient;\<newline>'',
           ''    \<newline>'',
           ''    public Application(String baseUrl) {\<newline>'',
           ''        this.apiClient = new ApiClient(baseUrl);\<newline>'',
           ''    }\<newline>'',
           ''    \<newline>'',
           ''    public static void main(String[] args) {\<newline>'',
           ''        String baseUrl = args.length > 0 ? args[0] : "http://localhost:3000/api/v1";\<newline>'',
           ''        Application app = new Application(baseUrl);\<newline>'',
           ''        app.run();\<newline>'',
           ''    }\<newline>'',
           ''    \<newline>'',
           ''    public void run() {\<newline>'',
           ''        System.out.println("REST Client Application Started");\<newline>'',
           ''        System.out.println("Base URL: " + apiClient.getBaseUrl());\<newline>'',
           ''        System.out.println();\<newline>'',
           ''        \<newline>'',
           ''        try {\<newline>'',
           ''            // Available operations:\<newline>'',
           operationCalls,
           ''\<newline>'',
           ''            \<newline>'',
           ''            System.out.println();\<newline>'',
           ''            System.out.println("REST Client Application Finished");\<newline>'',
           ''        } catch (Exception e) {\<newline>'',
           ''            System.err.println("Error: " + e.getMessage());\<newline>'',
           ''            e.printStackTrace();\<newline>'',
           ''        }\<newline>'',
           ''    }\<newline>'',
           ''    \<newline>'',
           ''    public ApiClient getApiClient() {\<newline>'',
           ''        return apiClient;\<newline>'',
           ''    }\<newline>'',
           ''}\<newline>''])\<close>

definition javaMethod :: "OperationContext \<Rightarrow> string" where
  \<open>javaMethod op =
     (let pathParams = filter (\<lambda>p. pc_in p = ''path'') (oc_params op);
          queryParams = filter (\<lambda>p. pc_in p = ''query'') (oc_params op);
          methodParams =
            map (\<lambda>p. ''String '' @ pc_name p) pathParams
            @ map (\<lambda>p. toJavaType (pc_type p) @ '' '' @ pc_name p) queryParams
            @ (if oc_hasBody op then [''Object requestBody''] else []);
          paramList = join '', '' methodParams;
          pathCode =
            ''String path = "'' @ oc_path op @ ''"''
            @ concat (map (\<lambda>p. ''.replace("{'' @ pc_name p @ ''}", '' @ pc_name p @ '')'') pathParams)
            @ '';'';
          queryCode = renderQueryCode queryParams;
          bodyArg = (if oc_hasBody op then ''requestBody'' else ''null'');
          returnStatement =
            (if oc_returnType op \<noteq> ''void''
             then concat
                   [''return sendRequest("'',
                    oc_method op,
                    ''", path, '',
                    bodyArg,
                    '');'']
             else concat
                   [''sendRequest("'',
                    oc_method op,
                    ''", path, '',
                    bodyArg,
                    '');\<newline>'',
                    ''        return;''])
      in concat
          [''\<newline>'',
           ''    /**\<newline>'',
           ''     * '',
           oc_summary op,
           ''\<newline>'',
           ''     * '',
           oc_method op,
           '' '',
           oc_path op,
           ''\<newline>'',
           ''     */\<newline>'',
           ''    public '',
           (if oc_returnType op = ''void'' then ''void'' else ''String''),
           '' '',
           oc_operationId op,
           ''('',
           paramList,
           '') throws Exception {\<newline>'',
           ''        '',
           pathCode,
           queryCode,
           ''\<newline>'',
           ''        '',
           returnStatement,
           ''\<newline>'',
           ''    }''])\<close>

definition generateJavaService ::
  "ConsumerGenerator \<Rightarrow> OperationContext list \<Rightarrow> EmitContext \<Rightarrow> string" where
  \<open>generateJavaService this ops ctx =
     (let methods = join ''\<newline>'' (map javaMethod ops)
      in concat
          [''/**\<newline>'',
           '' * REST API Client\<newline>'',
           '' * \<newline>'',
           '' * Generated by Origo-Spec-Kit from OpenAPI specification.\<newline>'',
           '' * Complete HTTP client implementation using Java HttpClient.\<newline>'',
           '' */\<newline>'',
           ''package client;\<newline>'',
           ''\<newline>'',
           ''import java.net.URI;\<newline>'',
           ''import java.net.http.HttpClient;\<newline>'',
           ''import java.net.http.HttpRequest;\<newline>'',
           ''import java.net.http.HttpResponse;\<newline>'',
           ''import java.time.Duration;\<newline>'',
           ''import com.google.gson.Gson;\<newline>'',
           ''import com.google.gson.GsonBuilder;\<newline>'',
           ''\<newline>'',
           ''public class ApiClient {\<newline>'',
           ''    \<newline>'',
           ''    private final String baseUrl;\<newline>'',
           ''    private final HttpClient httpClient;\<newline>'',
           ''    private final Gson gson;\<newline>'',
           ''    \<newline>'',
           ''    public ApiClient(String baseUrl) {\<newline>'',
           ''        this.baseUrl = baseUrl.endsWith("/") ? baseUrl.substring(0, baseUrl.length() - 1) : baseUrl;\<newline>'',
           ''        this.httpClient = HttpClient.newBuilder()\<newline>'',
           ''            .connectTimeout(Duration.ofSeconds(30))\<newline>'',
           ''            .build();\<newline>'',
           ''        this.gson = new GsonBuilder().setPrettyPrinting().create();\<newline>'',
           ''    }\<newline>'',
           ''    \<newline>'',
           ''    public String getBaseUrl() {\<newline>'',
           ''        return baseUrl;\<newline>'',
           ''    }\<newline>'',
           ''    \<newline>'',
           ''    /**\<newline>'',
           ''     * Send HTTP request and return response body\<newline>'',
           ''     */\<newline>'',
           ''    private String sendRequest(String method, String path, Object body) throws Exception {\<newline>'',
           ''        String url = baseUrl + path;\<newline>'',
           ''        \<newline>'',
           ''        HttpRequest.Builder requestBuilder = HttpRequest.newBuilder()\<newline>'',
           ''            .uri(URI.create(url))\<newline>'',
           ''            .timeout(Duration.ofSeconds(30))\<newline>'',
           ''            .header("Content-Type", "application/json")\<newline>'',
           ''            .header("Accept", "application/json");\<newline>'',
           ''        \<newline>'',
           ''        HttpRequest.BodyPublisher bodyPublisher = body != null \<newline>'',
           ''            ? HttpRequest.BodyPublishers.ofString(gson.toJson(body))\<newline>'',
           ''            : HttpRequest.BodyPublishers.noBody();\<newline>'',
           ''        \<newline>'',
           ''        switch (method.toUpperCase()) {\<newline>'',
           ''            case "GET":\<newline>'',
           ''                requestBuilder.GET();\<newline>'',
           ''                break;\<newline>'',
           ''            case "POST":\<newline>'',
           ''                requestBuilder.POST(bodyPublisher);\<newline>'',
           ''                break;\<newline>'',
           ''            case "PUT":\<newline>'',
           ''                requestBuilder.PUT(bodyPublisher);\<newline>'',
           ''                break;\<newline>'',
           ''            case "DELETE":\<newline>'',
           ''                requestBuilder.DELETE();\<newline>'',
           ''                break;\<newline>'',
           ''            case "PATCH":\<newline>'',
           ''                requestBuilder.method("PATCH", bodyPublisher);\<newline>'',
           ''                break;\<newline>'',
           ''            default:\<newline>'',
           ''                throw new IllegalArgumentException("Unsupported HTTP method: " + method);\<newline>'',
           ''        }\<newline>'',
           ''        \<newline>'',
           ''        HttpResponse<String> response = httpClient.send(\<newline>'',
           ''            requestBuilder.build(),\<newline>'',
           ''            HttpResponse.BodyHandlers.ofString()\<newline>'',
           ''        );\<newline>'',
           ''        \<newline>'',
           ''        int statusCode = response.statusCode();\<newline>'',
           ''        String responseBody = response.body();\<newline>'',
           ''        \<newline>'',
           ''        if (statusCode >= 200 && statusCode < 300) {\<newline>'',
           ''            return responseBody;\<newline>'',
           ''        } else if (statusCode == 204) {\<newline>'',
           ''            return null;\<newline>'',
           ''        } else {\<newline>'',
           ''            throw new RuntimeException("HTTP " + statusCode + ": " + responseBody);\<newline>'',
           ''        }\<newline>'',
           ''    }\<newline>'',
           methods,
           ''\<newline>'',
           ''    \<newline>'',
           ''    /**\<newline>'',
           ''     * Parse JSON response to object\<newline>'',
           ''     */\<newline>'',
           ''    public <T> T parseResponse(String json, Class<T> clazz) {\<newline>'',
           ''        return gson.fromJson(json, clazz);\<newline>'',
           ''    }\<newline>'',
           ''}\<newline>''])\<close>

definition generateJavaPom :: "ConsumerGenerator \<Rightarrow> EmitContext \<Rightarrow> string" where
  \<open>generateJavaPom this ctx =
     concat
      [''<?xml version="1.0" encoding="UTF-8"?>\<newline>'',
       ''<project xmlns="http://maven.apache.org/POM/4.0.0"\<newline>'',
       ''         xmlns:xsi="http://www.w3.org/2001/XMLSchema-instance"\<newline>'',
       ''         xsi:schemaLocation="http://maven.apache.org/POM/4.0.0 http://maven.apache.org/xsd/maven-4.0.0.xsd">\<newline>'',
       ''    <modelVersion>4.0.0</modelVersion>\<newline>'',
       ''    \<newline>'',
       ''    <groupId>client</groupId>\<newline>'',
       ''    <artifactId>rest-client</artifactId>\<newline>'',
       ''    <version>1.0.0</version>\<newline>'',
       ''    <packaging>jar</packaging>\<newline>'',
       ''    \<newline>'',
       ''    <name>REST API Client</name>\<newline>'',
       ''    <description>Generated REST client from OpenAPI specification</description>\<newline>'',
       ''    \<newline>'',
       ''    <properties>\<newline>'',
       ''        <maven.compiler.source>17</maven.compiler.source>\<newline>'',
       ''        <maven.compiler.target>17</maven.compiler.target>\<newline>'',
       ''        <project.build.sourceEncoding>UTF-8</project.build.sourceEncoding>\<newline>'',
       ''    </properties>\<newline>'',
       ''    \<newline>'',
       ''    <dependencies>\<newline>'',
       ''        <!-- JSON processing -->\<newline>'',
       ''        <dependency>\<newline>'',
       ''            <groupId>com.google.code.gson</groupId>\<newline>'',
       ''            <artifactId>gson</artifactId>\<newline>'',
       ''            <version>2.10.1</version>\<newline>'',
       ''        </dependency>\<newline>'',
       ''    </dependencies>\<newline>'',
       ''    \<newline>'',
       ''    <build>\<newline>'',
       ''        <plugins>\<newline>'',
       ''            <plugin>\<newline>'',
       ''                <groupId>org.apache.maven.plugins</groupId>\<newline>'',
       ''                <artifactId>maven-compiler-plugin</artifactId>\<newline>'',
       ''                <version>3.11.0</version>\<newline>'',
       ''            </plugin>\<newline>'',
       ''            <plugin>\<newline>'',
       ''                <groupId>org.codehaus.mojo</groupId>\<newline>'',
       ''                <artifactId>exec-maven-plugin</artifactId>\<newline>'',
       ''                <version>3.1.0</version>\<newline>'',
       ''                <configuration>\<newline>'',
       ''                    <mainClass>client.Application</mainClass>\<newline>'',
       ''                </configuration>\<newline>'',
       ''            </plugin>\<newline>'',
       ''        </plugins>\<newline>'',
       ''    </build>\<newline>'',
       ''</project>\<newline>'']\<close>

subsection \<open>TypeScript\<close>

definition generateTypeScriptIndex ::
  "ConsumerGenerator \<Rightarrow> OperationContext list \<Rightarrow> EmitContext \<Rightarrow> string" where
  \<open>generateTypeScriptIndex this ops ctx =
     concat
      [''/**\<newline>'',
       '' * Generated Consumer Application\<newline>'',
       '' * Uses the generated SDK - no manual HTTP calls allowed.\<newline>'',
       '' */\<newline>'',
       ''\<newline>'',
       ''import { ApiService } from '',
       [CHR 0x27],
       ''./api-service'',
       [CHR 0x27],
       '';\<newline>'',
       ''\<newline>'',
       ''async function main() {\<newline>'',
       ''  const apiService = new ApiService('',
       [CHR 0x27],
       ''http://localhost:8080/api/v1'',
       [CHR 0x27],
       '');\<newline>'',
       ''  \<newline>'',
       ''  console.log('',
       [CHR 0x27],
       ''Consumer Application Started'',
       [CHR 0x27],
       '');\<newline>'',
       ''  \<newline>'',
       ''  // Available operations:\<newline>'',
       join ''\<newline>'' (map (\<lambda>op. ''  // await apiService.'' @ oc_operationId op @ ''(...);'') ops),
       ''\<newline>'',
       ''  \<newline>'',
       ''  console.log('',
       [CHR 0x27],
       ''Consumer Application Finished'',
       [CHR 0x27],
       '');\<newline>'',
       ''}\<newline>'',
       ''\<newline>'',
       ''main().catch(console.error);\<newline>'']\<close>

definition typeScriptMethod :: "OperationContext \<Rightarrow> string" where
  \<open>typeScriptMethod op =
     (let params = join '', '' (map (\<lambda>p. pc_name p @ '': '' @ toTypeScriptType (pc_type p))
                                (oc_params op))
      in concat
          [''\<newline>'',
           ''  /**\<newline>'',
           ''   * '',
           oc_summary op,
           ''\<newline>'',
           ''   * '',
           oc_method op,
           '' '',
           oc_path op,
           ''\<newline>'',
           ''   */\<newline>'',
           ''  async '',
           oc_operationId op,
           ''('',
           params,
           ''): Promise<'',
           oc_returnType op,
           ''> {\<newline>'',
           ''    return this.api.'',
           oc_operationId op,
           ''('',
           join '', '' (map pc_name (oc_params op)),
           '');\<newline>'',
           ''  }''])\<close>

definition generateTypeScriptService ::
  "ConsumerGenerator \<Rightarrow> OperationContext list \<Rightarrow> EmitContext \<Rightarrow> string" where
  \<open>generateTypeScriptService this ops ctx =
     (let methods = join ''\<newline>'' (map typeScriptMethod ops)
      in concat
          [''/**\<newline>'',
           '' * API Service - Facade for SDK operations\<newline>'',
           '' */\<newline>'',
           ''\<newline>'',
           ''import { Configuration, '',
           ctx_apiClassName ctx,
           ''Api } from '',
           [CHR 0x27],
           ''../sdk'',
           [CHR 0x27],
           '';\<newline>'',
           ''\<newline>'',
           ''export class ApiService {\<newline>'',
           ''  private api: '',
           ctx_apiClassName ctx,
           ''Api;\<newline>'',
           ''  \<newline>'',
           ''  constructor(basePath: string) {\<newline>'',
           ''    const config = new Configuration({ basePath });\<newline>'',
           ''    this.api = new '',
           ctx_apiClassName ctx,
           ''Api(config);\<newline>'',
           ''  }\<newline>'',
           methods,
           ''\<newline>'',
           ''}\<newline>''])\<close>

definition generateTypeScriptPackage :: "ConsumerGenerator \<Rightarrow> EmitContext \<Rightarrow> string" where
  \<open>generateTypeScriptPackage this ctx =
     concat
      [''{\<newline>'',
       ''  "name": "api-consumer",\<newline>'',
       ''  "version": "1.0.0",\<newline>'',
       ''  "main": "dist/index.js",\<newline>'',
       ''  "scripts": {\<newline>'',
       ''    "build": "tsc",\<newline>'',
       ''    "start": "node dist/index.js"\<newline>'',
       ''  },\<newline>'',
       ''  "dependencies": {\<newline>'',
       ''    "@sdk/client": "file:../sdk"\<newline>'',
       ''  },\<newline>'',
       ''  "devDependencies": {\<newline>'',
       ''    "typescript": "^5.0.0"\<newline>'',
       ''  }\<newline>'',
       ''}\<newline>'']\<close>

subsection \<open>Python\<close>

definition generatePythonMain ::
  "ConsumerGenerator \<Rightarrow> OperationContext list \<Rightarrow> EmitContext \<Rightarrow> string" where
  \<open>generatePythonMain this ops ctx =
     concat
      [''"""\<newline>'',
       ''Generated Consumer Application\<newline>'',
       ''Uses the generated SDK - no manual HTTP calls allowed.\<newline>'',
       ''"""\<newline>'',
       ''\<newline>'',
       ''from api_service import ApiService\<newline>'',
       ''\<newline>'',
       ''\<newline>'',
       ''def main():\<newline>'',
       ''    api_service = ApiService("http://localhost:8080/api/v1")\<newline>'',
       ''    \<newline>'',
       ''    print("Consumer Application Started")\<newline>'',
       ''    \<newline>'',
       ''    # Available operations:\<newline>'',
       join ''\<newline>'' (map (\<lambda>op. ''    # api_service.'' @ toSnakeCase (oc_operationId op) @ ''(...)'') ops),
       ''\<newline>'',
       ''    \<newline>'',
       ''    print("Consumer Application Finished")\<newline>'',
       ''\<newline>'',
       ''\<newline>'',
       ''if __name__ == "__main__":\<newline>'',
       ''    main()\<newline>'']\<close>

definition pythonMethod :: "OperationContext \<Rightarrow> string" where
  \<open>pythonMethod op =
     (let params = join '', '' (map (\<lambda>p. toSnakeCase (pc_name p) @ '': '' @ toPythonType (pc_type p))
                                (oc_params op))
      in concat
          [''\<newline>'',
           ''    def '',
           toSnakeCase (oc_operationId op),
           ''(self'',
           (if params \<noteq> [] then '', '' @ params else []),
           ''):\<newline>'',
           ''        """\<newline>'',
           ''        '',
           oc_summary op,
           ''\<newline>'',
           ''        '',
           oc_method op,
           '' '',
           oc_path op,
           ''\<newline>'',
           ''        """\<newline>'',
           ''        return self.api.'',
           toSnakeCase (oc_operationId op),
           ''('',
           join '', '' (map (\<lambda>p. toSnakeCase (pc_name p)) (oc_params op)),
           '')''])\<close>

definition generatePythonService ::
  "ConsumerGenerator \<Rightarrow> OperationContext list \<Rightarrow> EmitContext \<Rightarrow> string" where
  \<open>generatePythonService this ops ctx =
     (let methods = join ''\<newline>'' (map pythonMethod ops)
      in concat
          [''"""\<newline>'',
           ''API Service - Facade for SDK operations\<newline>'',
           ''All API interactions MUST go through this service.\<newline>'',
           ''"""\<newline>'',
           ''\<newline>'',
           ''from sdk_client import ApiClient, '',
           ctx_apiClassName ctx,
           ''Api\<newline>'',
           ''\<newline>'',
           ''\<newline>'',
           ''class ApiService:\<newline>'',
           ''    def __init__(self, base_path: str):\<newline>'',
           ''        client = ApiClient()\<newline>'',
           ''        client.configuration.host = base_path\<newline>'',
           ''        self.api = '',
           ctx_apiClassName ctx,
           ''Api(client)\<newline>'',
           methods,
           ''\<newline>''])\<close>

subsection \<open>Dispatch on the language\<close>

definition generateForLanguage ::
  "ConsumerGenerator \<Rightarrow> SupportedLanguage \<Rightarrow> OperationContext list \<Rightarrow> EmitContext
   \<Rightarrow> (string \<times> string) list" where
  "generateForLanguage this language ops ctx =
     (case language of
        Java \<Rightarrow>
          [(''src/main/java/Application.java'', generateJavaApplication this ops ctx),
           (''src/main/java/ApiService.java'', generateJavaService this ops ctx),
           (''pom.xml'', generateJavaPom this ctx)]
      | TypeScript \<Rightarrow>
          [(''src/index.ts'', generateTypeScriptIndex this ops ctx),
           (''src/api-service.ts'', generateTypeScriptService this ops ctx),
           (''package.json'', generateTypeScriptPackage this ctx)]
      | Python \<Rightarrow>
          [(''main.py'', generatePythonMain this ops ctx),
           (''api_service.py'', generatePythonService this ops ctx),
           (''requirements.txt'', ''requests>=2.28.0\<newline>'')])"

subsection \<open>Generation from a contract file\<close>

text \<open>
  \<open>generateForOperations\<close> reads the contract from the file system and writes the
  generated files to it. The file system is a map from paths to file contents
  (directories are not tracked: the code tests and creates them only so that the writes
  succeed). The YAML loader and \<open>path.join\<close> are library functions, taken as the
  parameters \<open>load\<close> and \<open>pathJoin\<close>. A thrown error is the left summand; the right one
  is the returned file map with the file system after the writes.
\<close>

record ConsumerGeneratorOptions =
  opt_specPath :: string
  opt_outputDir :: string
  opt_language :: SupportedLanguage
  opt_packageName :: "string option"
  opt_operations :: "string list option"

definition writeFiles ::
  "(string \<Rightarrow> string \<Rightarrow> string) \<Rightarrow> string \<Rightarrow> (string \<times> string) list \<Rightarrow> (string \<rightharpoonup> string)
   \<Rightarrow> (string \<rightharpoonup> string)" where
  "writeFiles pathJoin outputDir files fs =
     fold (\<lambda>entry fs'. fs'(pathJoin outputDir (fst entry) \<mapsto> snd entry)) files fs"

definition generateForOperations ::
  "ConsumerGenerator \<Rightarrow> (string \<Rightarrow> error + LoadedSpec) \<Rightarrow> (string \<Rightarrow> string \<Rightarrow> string)
   \<Rightarrow> (string \<rightharpoonup> string) \<Rightarrow> ConsumerGeneratorOptions
   \<Rightarrow> error + ((string \<times> string) list \<times> (string \<rightharpoonup> string))" where
  "generateForOperations this load pathJoin fs options =
     (case fs (opt_specPath options) of
        None \<Rightarrow> Inl (Error (''OpenAPI spec not found: '' @ opt_specPath options))
      | Some specContent \<Rightarrow>
          (case load specContent of
             Inl e \<Rightarrow> Inl e
           | Inr spec \<Rightarrow>
               (case extractOperations spec (opt_operations options) of
                  Inl e \<Rightarrow> Inl e
                | Inr operations \<Rightarrow>
                    if length operations = 0
                    then Inl (Error ''No operations found in the spec'')
                    else
                      (let generatedFiles =
                             generateForLanguage this (opt_language options) operations
                               \<lparr> ctx_packageName =
                                   orElse (opt_packageName options) ''com.example.client'',
                                 ctx_apiClassName = deriveApiClassName (ld_title spec) \<rparr>
                       in Inr (generatedFiles,
                               if opt_outputDir options \<noteq> []
                               then writeFiles pathJoin (opt_outputDir options) generatedFiles fs
                               else fs)))))"

text \<open>\<open>generate\<close>: the same with \<open>operations: undefined\<close>.\<close>

definition generate ::
  "ConsumerGenerator \<Rightarrow> (string \<Rightarrow> error + LoadedSpec) \<Rightarrow> (string \<Rightarrow> string \<Rightarrow> string)
   \<Rightarrow> (string \<rightharpoonup> string) \<Rightarrow> ConsumerGeneratorOptions
   \<Rightarrow> error + ((string \<times> string) list \<times> (string \<rightharpoonup> string))" where
  "generate this load pathJoin fs options =
     generateForOperations this load pathJoin fs (options\<lparr> opt_operations := None \<rparr>)"

section \<open>Example contracts\<close>

definition mkOp :: "string \<Rightarrow> string option \<Rightarrow> string list option \<Rightarrow> Operation" where
  "mkOp opId s ts =
     \<lparr> operationId = Some opId, summary = s, tags = ts, parameters = None,
       requestBody = None, responses = Map.empty \<rparr>"

definition petsSpec ::
  "string option \<Rightarrow> string list option \<Rightarrow> string option \<Rightarrow> string list option \<Rightarrow>
   string option \<Rightarrow> string list option \<Rightarrow> OpenAPISpec" where
  "petsSpec s1 t1 s2 t2 s3 t3 =
     \<lparr> info_title = ''Pets'',
       paths = Some
         [(''/pets'', [(''get'', ObjectEntry (mkOp ''listPets'' s1 t1)),
                       (''post'', ObjectEntry (mkOp ''createPet'' s2 t2))]),
          (''/pets/{id}'', [(''get'', ObjectEntry (mkOp ''getPet'' s3 t3))])] \<rparr>"

definition refResponse :: "string \<Rightarrow> Response" where
  "refResponse r =
     \<lparr> resp_description = ''ok'',
       resp_content = Some [''application/json'' \<mapsto>
         \<lparr> media_schema = Some \<lparr> schema_type = None, schema_ref = Some r \<rparr> \<rparr>] \<rparr>"

definition textResponse :: Response where
  "textResponse =
     \<lparr> resp_description = ''ok'',
       resp_content = Some [''text/plain'' \<mapsto>
         \<lparr> media_schema = Some \<lparr> schema_type = Some ''string'', schema_ref = None \<rparr> \<rparr>] \<rparr>"

definition opWithResponses :: "(string \<rightharpoonup> Response) \<Rightarrow> Operation" where
  "opWithResponses rs =
     \<lparr> operationId = Some ''getPet'', summary = None, tags = None, parameters = None,
       requestBody = None, responses = rs \<rparr>"

definition verbOrderSpec :: "(string \<times> PathEntry) list \<Rightarrow> OpenAPISpec" where
  "verbOrderSpec item = \<lparr> info_title = ''Pets'', paths = Some [(''/pets'', item)] \<rparr>"

definition postFirst :: OpenAPISpec where
  "postFirst = verbOrderSpec [(''post'', ObjectEntry (mkOp ''createPet'' None None)),
                              (''get'', ObjectEntry (mkOp ''listPets'' None None))]"

definition getFirst :: OpenAPISpec where
  "getFirst = verbOrderSpec [(''get'', ObjectEntry (mkOp ''listPets'' None None)),
                             (''post'', ObjectEntry (mkOp ''createPet'' None None))]"

definition fetchLine :: string where
  \<open>fetchLine = ''const res = await fetch("https://api.example.com/x")''\<close>

definition basePathLine :: string where
  \<open>basePathLine = ''basePath: "https://api.example.com"''\<close>

definition xmlLine :: string where
  \<open>xmlLine = ''<url>"https://repo.example.com/maven2"</url>''\<close>

definition twoQuery :: "ParamContext list" where
  "twoQuery = [\<lparr> pc_name = ''a'', pc_type = ''string'', pc_in = ''query'' \<rparr>,
               \<lparr> pc_name = ''b'', pc_type = ''number'', pc_in = ''query'' \<rparr>]"

definition petsOptions :: "string list option \<Rightarrow> ConsumerGeneratorOptions" where
  "petsOptions ids =
     \<lparr> opt_specPath = ''openapi.yaml'', opt_outputDir = ''out'', opt_language = Java,
       opt_packageName = None, opt_operations = ids \<rparr>"

definition emptySpec :: LoadedSpec where
  "emptySpec = \<lparr> ld_title = ''Empty'', ld_paths = Some [] \<rparr>"

text \<open>
  Three documents beyond the declared types: \<open>get:\<close> with nothing under it, a path with
  nothing under it, and an operation with an \<open>operationId\<close> and no \<open>responses\<close>.
\<close>

definition nullEntrySpec :: LoadedSpec where
  "nullEntrySpec =
     \<lparr> ld_title = ''Pets'',
       ld_paths = Some [(''/pets'', Some [(''get'', NullEntry),
                                         (''post'', ObjectValue (loadedOperation (mkOp ''createPet'' None None)))])] \<rparr>"

definition nullPathItemSpec :: LoadedSpec where
  "nullPathItemSpec = \<lparr> ld_title = ''Pets'', ld_paths = Some [(''/pets'', None)] \<rparr>"

definition noResponsesSpec :: LoadedSpec where
  "noResponsesSpec =
     \<lparr> ld_title = ''Pets'',
       ld_paths = Some [(''/pets'', Some [(''get'', ObjectValue
         \<lparr> ld_operationId = Some ''listPets'', ld_summary = None, ld_tags = None,
           ld_parameters = None, ld_requestBody = None, ld_responses = None \<rparr>)])] \<rparr>"

definition joinSlash :: "string \<Rightarrow> string \<Rightarrow> string" where
  "joinSlash dir file = dir @ ''/'' @ file"

section \<open>Verified properties\<close>

subsection \<open>The pets contract\<close>

lemma petsSpec_wellFormed:
  "wellFormedOperations (petsSpec s1 t1 s2 t2 s3 t3) =
     [(''/pets'', ''get'', mkOp ''listPets'' s1 t1),
      (''/pets'', ''post'', mkOp ''createPet'' s2 t2),
      (''/pets/{id}'', ''get'', mkOp ''getPet'' s3 t3)]"
  by (simp add: wellFormedOperations_def wellFormedEntries_def petsSpec_def mkOp_def)

lemma idOf_mkOp: "idOf (pk, verb, mkOp opId s t) = opId"
  by (simp add: idOf_def mkOp_def)

lemma filtered_out_keeps:
  "(case f of None \<Rightarrow> False | Some ids \<Rightarrow> x \<notin> set ids) = (\<not> keeps f x)"
  by (simp add: keeps_def split: option.splits)

lemma extractPathItem_sound:
  assumes "list_all (\<lambda>(verb, entry). soundEntry entry) entries"
  shows "extractPathItem f pk entries acc =
     Inr (acc @ map (\<lambda>(verb, op). mkOperation pk verb (the (ld_operationId op))
                                  (withResponses op (the (ld_responses op))))
             (filter (\<lambda>(verb, op). keeps f (the (ld_operationId op)))
                (wellFormedLoadedEntries entries)))"
  using assms
proof (induction entries arbitrary: acc)
  case Nil
  then show ?case by (simp add: wellFormedLoadedEntries_def)
next
  case (Cons a entries)
  obtain verb entry where a: "a = (verb, entry)" by (cases a)
  have wf: "wellFormedLoadedEntries ((verb, entry) # entries) =
              (case entry of
                 ObjectValue op \<Rightarrow> if truthy (ld_operationId op) then [(verb, op)] else []
               | _ \<Rightarrow> [])
              @ wellFormedLoadedEntries entries"
    by (simp add: wellFormedLoadedEntries_def)
  from Cons.prems have rest: "list_all (\<lambda>(verb, entry). soundEntry entry) entries"
    and here: "soundEntry entry"
    by (simp_all add: a)
  have "extractPathItem f pk ((verb, entry) # entries) acc =
     Inr (acc @ map (\<lambda>(verb, op). mkOperation pk verb (the (ld_operationId op))
                                  (withResponses op (the (ld_responses op))))
             (filter (\<lambda>(verb, op). keeps f (the (ld_operationId op)))
                (wellFormedLoadedEntries ((verb, entry) # entries))))"
  proof (cases entry)
    case NullEntry
    with here show ?thesis by (simp add: soundEntry_def)
  next
    case ScalarValue
    with wf show ?thesis by (simp add: Cons.IH[OF rest])
  next
    case (ObjectValue op)
    show ?thesis
    proof (cases "truthy (ld_operationId op)")
      case False
      with wf show ?thesis by (simp add: ObjectValue Cons.IH[OF rest])
    next
      case True
      with here ObjectValue obtain rs where rs: "ld_responses op = Some rs"
        by (auto simp: soundEntry_def)
      from wf show ?thesis
        by (simp add: ObjectValue True rs Cons.IH[OF rest] filtered_out_keeps
              describeOperation_def)
    qed
  qed
  then show ?case unfolding a .
qed

lemma extractPaths_sound:
  assumes "list_all (\<lambda>(pathKey, item).
                 case item of
                   None \<Rightarrow> False
                 | Some entries \<Rightarrow> list_all (\<lambda>(verb, entry). soundEntry entry) entries) ps"
  shows "extractPaths f ps acc =
     Inr (acc @ map loadedDescriptor (filter (\<lambda>e. keeps f (loadedId e))
            (concat (map (\<lambda>(pathKey, item).
                        map (\<lambda>(verb, op). (pathKey, verb, op))
                          (wellFormedLoadedEntries (case item of None \<Rightarrow> [] | Some entries \<Rightarrow> entries)))
                     ps))))"
  using assms
proof (induction ps arbitrary: acc)
  case Nil
  then show ?case by simp
next
  case (Cons a ps)
  obtain pk item where a: "a = (pk, item)" by (cases a)
  from Cons.prems obtain entries where item: "item = Some entries"
    and here: "list_all (\<lambda>(verb, entry). soundEntry entry) entries"
    by (cases item) (simp_all add: a)
  from Cons.prems have rest: "list_all (\<lambda>(pathKey, item).
                 case item of
                   None \<Rightarrow> False
                 | Some entries \<Rightarrow> list_all (\<lambda>(verb, entry). soundEntry entry) entries) ps"
    by simp
  show ?case
    unfolding a item
    by (simp add: Cons.IH[OF rest] extractPathItem_sound[OF here] filter_map comp_def
          loadedDescriptor_def loadedId_def case_prod_unfold)
qed

lemma extractOperations_sound:
  assumes "soundDocument doc"
  shows "extractOperations doc f =
     Inr (map loadedDescriptor (filter (\<lambda>e. keeps f (loadedId e)) (wellFormedLoaded doc)))"
  using assms
  by (simp add: extractOperations_def wellFormedLoaded_def soundDocument_def extractPaths_sound)

lemma length_filter_mem_distinct:
  assumes "distinct xs"
  shows "length (filter (\<lambda>x. x \<in> A) xs) = card (A \<inter> set xs)"
proof -
  have "distinct (filter (\<lambda>x. x \<in> A) xs)" using assms by simp
  then have "length (filter (\<lambda>x. x \<in> A) xs) = card (set (filter (\<lambda>x. x \<in> A) xs))"
    by (rule distinct_card[symmetric])
  also have "set (filter (\<lambda>x. x \<in> A) xs) = A \<inter> set xs" by auto
  finally show ?thesis .
qed

subsection \<open>Documents of the declared types\<close>

lemma withResponses_loaded: "withResponses (loadedOperation op) (responses op) = op"
  by (simp add: withResponses_def loadedOperation_def)

lemma loadedOperation_fields:
  "ld_operationId (loadedOperation op) = operationId op"
  "ld_responses (loadedOperation op) = Some (responses op)"
  by (simp_all add: loadedOperation_def)

lemma wellFormedLoadedEntries_typed:
  "wellFormedLoadedEntries (map (\<lambda>(verb, entry). (verb, loadedEntry entry)) item) =
     map (\<lambda>(verb, op). (verb, loadedOperation op)) (wellFormedEntries item)"
proof (induction item)
  case Nil
  then show ?case by (simp add: wellFormedLoadedEntries_def wellFormedEntries_def)
next
  case (Cons a item)
  obtain verb entry where a: "a = (verb, entry)" by (cases a)
  from Cons.IH show ?case
    unfolding a
    by (cases entry) (simp_all add: wellFormedLoadedEntries_def wellFormedEntries_def loadedOperation_def)
qed

lemma wellFormedLoaded_typed:
  "wellFormedLoaded (loadedSpec spec) =
     map (\<lambda>e. (fst e, fst (snd e), loadedOperation (snd (snd e)))) (wellFormedOperations spec)"
proof (cases "paths spec")
  case None
  then show ?thesis
    by (simp add: wellFormedLoaded_def loadedSpec_def wellFormedOperations_def)
next
  case (Some ps)
  have "concat (map (\<lambda>(pathKey, item).
                map (\<lambda>(verb, op). (pathKey, verb, op))
                  (wellFormedLoadedEntries (case item of None \<Rightarrow> [] | Some entries \<Rightarrow> entries)))
         (map (\<lambda>(pathKey, item). (pathKey, Some (map (\<lambda>(verb, entry). (verb, loadedEntry entry)) item))) ps))
        = map (\<lambda>e. (fst e, fst (snd e), loadedOperation (snd (snd e))))
            (concat (map (\<lambda>(pathKey, item). map (\<lambda>(verb, op). (pathKey, verb, op)) (wellFormedEntries item)) ps))"
    by (induction ps)
       (simp_all add: wellFormedLoadedEntries_typed[unfolded case_prod_unfold]
          case_prod_unfold comp_def)
  then show ?thesis
    using Some by (simp add: wellFormedLoaded_def loadedSpec_def wellFormedOperations_def)
qed

lemma soundEntry_typed: "soundEntry (loadedEntry entry)"
  by (cases entry) (simp_all add: soundEntry_def loadedOperation_def)

lemma soundDocument_typed: "soundDocument (loadedSpec spec)"
proof (cases "paths spec")
  case None
  then show ?thesis by (simp add: soundDocument_def loadedSpec_def)
next
  case (Some ps)
  then show ?thesis
    by (simp add: soundDocument_def loadedSpec_def list_all_iff soundEntry_typed case_prod_unfold)
qed

text \<open>
  On a document of the declared types no read throws, and extraction returns the
  descriptors of its well-formed entries that the filter keeps.
\<close>

lemma extractOperations_typed:
  "extractOperations (loadedSpec spec) f =
     Inr (map descriptorOf (filter (\<lambda>e. keeps f (idOf e)) (wellFormedOperations spec)))"
  by (simp add: extractOperations_sound[OF soundDocument_typed] wellFormedLoaded_typed
        filter_map comp_def loadedDescriptor_def loadedId_def descriptorOf_def idOf_def
        loadedOperation_fields withResponses_loaded)

text \<open>
  Claim C3, as the code has it. Take a loaded contract document in which no path item
  and no entry is \<open>null\<close> and every entry with an \<open>operationId\<close> has \<open>responses\<close>. With no
  filter, extraction returns, without error, one descriptor for each well-formed entry
  (an object with a non-empty \<open>operationId\<close>) and nothing else, in traversal order: path
  items in the order of the document and, within a path item, the verbs in the order in
  which the document lists them (there is no canonical verb order). Entries without an
  \<open>operationId\<close> are skipped. With a filter \<open>S\<close> it returns the descriptors of the entries
  whose id is in \<open>S\<close>, in the same traversal order whatever the order of \<open>S\<close>; when the
  operation ids of the document are distinct, these are exactly \<open>|S \<inter> ids|\<close>
  descriptors.
\<close>

theorem extract_document_order:
  assumes "soundDocument doc"
  shows "extractOperations doc None = Inr (map loadedDescriptor (wellFormedLoaded doc))
   \<and> (\<exists>ds. extractOperations doc None = Inr ds \<and> length ds = length (wellFormedLoaded doc))
   \<and> extractOperations doc (Some S) =
       Inr (map loadedDescriptor (filter (\<lambda>e. loadedId e \<in> set S) (wellFormedLoaded doc)))
   \<and> (distinct (map loadedId (wellFormedLoaded doc)) \<longrightarrow>
        (\<exists>ds. extractOperations doc (Some S) = Inr ds
              \<and> length ds = card (set S \<inter> set (map loadedId (wellFormedLoaded doc)))))"
proof -
  have a: "extractOperations doc None = Inr (map loadedDescriptor (wellFormedLoaded doc))"
    by (simp add: extractOperations_sound[OF assms] keeps_def)
  have b: "extractOperations doc (Some S) =
       Inr (map loadedDescriptor (filter (\<lambda>e. loadedId e \<in> set S) (wellFormedLoaded doc)))"
    by (simp add: extractOperations_sound[OF assms] keeps_def)
  have c: "length (map loadedDescriptor (filter (\<lambda>e. loadedId e \<in> set S) (wellFormedLoaded doc))) =
          card (set S \<inter> set (map loadedId (wellFormedLoaded doc)))"
    if d: "distinct (map loadedId (wellFormedLoaded doc))"
  proof -
    have "length (map loadedDescriptor (filter (\<lambda>e. loadedId e \<in> set S) (wellFormedLoaded doc))) =
            length (filter (\<lambda>x. x \<in> set S) (map loadedId (wellFormedLoaded doc)))"
      by (simp add: filter_map comp_def)
    also have "\<dots> = card (set S \<inter> set (map loadedId (wellFormedLoaded doc)))"
      using d by (rule length_filter_mem_distinct)
    finally show ?thesis .
  qed
  from a b c show ?thesis by simp
qed

text \<open>
  The pets contract, filtered by \<open>getPet, listPets, deletePet\<close>: two descriptors, in
  document order.
\<close>

theorem extract_document_order_witness:
  "soundDocument (loadedSpec (petsSpec None None None None None None))
   \<and> distinct (map loadedId (wellFormedLoaded (loadedSpec (petsSpec None None None None None None))))
   \<and> map oc_operationId (projr (extractOperations (loadedSpec (petsSpec None None None None None None))
         (Some [''getPet'', ''listPets'', ''deletePet'']))) = [''listPets'', ''getPet'']
   \<and> card (set [''getPet'', ''listPets'', ''deletePet''] \<inter>
         set (map loadedId (wellFormedLoaded (loadedSpec (petsSpec None None None None None None))))) = 2"
proof -
  let ?doc = "loadedSpec (petsSpec None None None None None None)"
  let ?S = "[''getPet'', ''listPets'', ''deletePet'']"
  have s: "soundDocument ?doc" by (rule soundDocument_typed)
  have ids: "map loadedId (wellFormedLoaded ?doc) = [''listPets'', ''createPet'', ''getPet'']"
    by code_simp
  have d: "distinct (map loadedId (wellFormedLoaded ?doc))"
    unfolding ids by simp
  have sel: "map oc_operationId (projr (extractOperations ?doc (Some ?S))) = [''listPets'', ''getPet'']"
    by code_simp
  from extract_document_order[OF s, of ?S] d
  obtain ds where ds: "extractOperations ?doc (Some ?S) = Inr ds"
    and n: "length ds = card (set ?S \<inter> set (map loadedId (wellFormedLoaded ?doc)))"
    by blast
  from sel ds have "map oc_operationId ds = [''listPets'', ''getPet'']" by simp
  then have "length ds = 2"
    by (metis length_map length_Cons list.size(3) numeral_2_eq_2)
  with n s d sel show ?thesis by simp
qed

text \<open>
  Where the claim fails. The same two operations under one path, listed \<open>post\<close> first
  in one document and \<open>get\<close> first in the other: the descriptors follow the document, so
  no fixed verb order describes both results. And three documents on which extraction
  throws instead of returning descriptors: a verb with \<open>null\<close> under it, a path with
  \<open>null\<close> under it, and an operation with an \<open>operationId\<close> and no \<open>responses\<close>.
\<close>

theorem extract_order_and_null_counterexample:
  "map oc_method (projr (extractOperations (loadedSpec postFirst) None)) = [''POST'', ''GET'']
   \<and> map oc_method (projr (extractOperations (loadedSpec getFirst) None)) = [''GET'', ''POST'']
   \<and> extractOperations nullEntrySpec None = Inl TypeError
   \<and> extractOperations nullPathItemSpec None = Inl TypeError
   \<and> extractOperations noResponsesSpec None = Inl TypeError"
  by code_simp

lemma splitAcc_nonempty: "splitAcc sep cur s \<noteq> []"
  by (induction s arbitrary: cur) auto

lemma takeWhile_all_rev: "sep \<notin> set s \<Longrightarrow> takeWhile (\<lambda>x. x \<noteq> sep) (rev s) = rev s"
  by (induction s) auto

lemma last_splitAcc:
  "last (splitAcc sep cur s) =
     (if sep \<in> set s then rev (takeWhile (\<lambda>x. x \<noteq> sep) (rev s)) else cur @ s)"
proof (induction s arbitrary: cur)
  case Nil
  then show ?case by simp
next
  case (Cons c s)
  show ?case
  proof (cases "c = sep")
    case True
    have "last (splitAcc sep cur (c # s)) = last (splitAcc sep [] s)"
      using True by (simp add: splitAcc_nonempty)
    also have "\<dots> = (if sep \<in> set s then rev (takeWhile (\<lambda>x. x \<noteq> sep) (rev s)) else s)"
      by (simp add: Cons.IH)
    also have "\<dots> = rev (takeWhile (\<lambda>x. x \<noteq> sep) (rev (c # s)))"
      using True by (auto simp: takeWhile_append takeWhile_all_rev)
    finally show ?thesis using True by simp
  next
    case False
    have "last (splitAcc sep cur (c # s)) = last (splitAcc sep (cur @ [c]) s)"
      using False by simp
    also have "\<dots> = (if sep \<in> set s then rev (takeWhile (\<lambda>x. x \<noteq> sep) (rev s)) else cur @ c # s)"
      by (simp add: Cons.IH)
    also have "\<dots> = (if sep \<in> set (c # s) then rev (takeWhile (\<lambda>x. x \<noteq> sep) (rev (c # s)))
                       else cur @ c # s)"
      using False by (auto simp: takeWhile_append)
    finally show ?thesis .
  qed
qed

lemma pop_last: "xs \<noteq> [] \<Longrightarrow> pop xs = Some (last xs)"
  by (induction xs rule: pop.induct) auto

lemma pop_split_trailing: "pop (split_char (CHR ''/'') s) = Some (trailingSegment s)"
proof -
  have "last (splitAcc (CHR ''/'') [] s) = trailingSegment s"
  proof (cases "CHR ''/'' \<in> set s")
    case True
    then show ?thesis by (simp add: last_splitAcc trailingSegment_def)
  next
    case False
    then show ?thesis by (simp add: last_splitAcc trailingSegment_def takeWhile_all_rev)
  qed
  then show ?thesis
    by (simp add: split_char_def pop_last splitAcc_nonempty)
qed

lemma inferReturnType_char:
  "inferReturnType op =
     (case successResponse op of
        None \<Rightarrow> ''void''
      | Some r \<Rightarrow>
          (case resp_content r of
             None \<Rightarrow> ''void''
           | Some c \<Rightarrow> (case namedSchema c of None \<Rightarrow> ''Object'' | Some n \<Rightarrow> n)))"
  by (auto simp: inferReturnType_def namedSchema_def
        pop_split_trailing orElse_def trailingSegment_def
      split: option.splits)

text \<open>
  Claim C4, as the code has it. The return type is read from one response only: the
  \<open>200\<close> response when the operation has one, else the \<open>201\<close> response. When there is
  no such response, or it has no \<open>content\<close>, the type is \<open>void\<close>. When it has
  \<open>content\<close>, the type is the trailing path segment of the \<open>$ref\<close> of the JSON schema if
  that segment exists and is not empty, and the generic \<open>Object\<close> in every other case,
  also when the content holds no JSON entry at all.
\<close>

theorem returnType_resolution:
  "(successResponse op = None \<longrightarrow> inferReturnType op = ''void'')
   \<and> (\<forall>r. successResponse op = Some r \<and> resp_content r = None \<longrightarrow> inferReturnType op = ''void'')
   \<and> (\<forall>r c n. successResponse op = Some r \<and> resp_content r = Some c \<and> namedSchema c = Some n
          \<longrightarrow> inferReturnType op = n \<and> n \<noteq> [])
   \<and> (\<forall>r c. successResponse op = Some r \<and> resp_content r = Some c \<and> namedSchema c = None
          \<longrightarrow> inferReturnType op = ''Object'')"
  by (auto simp: inferReturnType_char namedSchema_def split: option.splits if_splits)

theorem returnType_resolution_witness:
  "inferReturnType (opWithResponses Map.empty) = ''void''
   \<and> inferReturnType (opWithResponses [''200'' \<mapsto> \<lparr> resp_description = ''No Content'', resp_content = None \<rparr>]) = ''void''
   \<and> inferReturnType (opWithResponses [''201'' \<mapsto> refResponse ''#/components/schemas/Pet'']) = ''Pet''
   \<and> inferReturnType (opWithResponses [''200'' \<mapsto> textResponse]) = ''Object''"
proof -
  have h1: "successResponse (opWithResponses Map.empty) = None"
    by (simp add: successResponse_def opWithResponses_def)
  have h2: "successResponse (opWithResponses [''200'' \<mapsto> \<lparr> resp_description = ''No Content'', resp_content = None \<rparr>])
              = Some \<lparr> resp_description = ''No Content'', resp_content = None \<rparr>
            \<and> resp_content \<lparr> resp_description = ''No Content'', resp_content = None \<rparr> = None"
    by (simp add: successResponse_def opWithResponses_def)
  have seg: "trailingSegment ''#/components/schemas/Pet'' = ''Pet''"
    by code_simp
  have h3: "successResponse (opWithResponses [''201'' \<mapsto> refResponse ''#/components/schemas/Pet''])
              = Some (refResponse ''#/components/schemas/Pet'')
            \<and> resp_content (refResponse ''#/components/schemas/Pet'') =
                Some [''application/json'' \<mapsto>
                  \<lparr> media_schema = Some \<lparr> schema_type = None,
                      schema_ref = Some ''#/components/schemas/Pet'' \<rparr> \<rparr>]
            \<and> namedSchema [''application/json'' \<mapsto>
                  \<lparr> media_schema = Some \<lparr> schema_type = None,
                      schema_ref = Some ''#/components/schemas/Pet'' \<rparr> \<rparr>] = Some ''Pet''"
    by (simp add: successResponse_def opWithResponses_def refResponse_def namedSchema_def seg)
  have h4: "successResponse (opWithResponses [''200'' \<mapsto> textResponse]) = Some textResponse
            \<and> resp_content textResponse = Some [''text/plain'' \<mapsto>
                \<lparr> media_schema = Some \<lparr> schema_type = Some ''string'', schema_ref = None \<rparr> \<rparr>]
            \<and> namedSchema [''text/plain'' \<mapsto>
                \<lparr> media_schema = Some \<lparr> schema_type = Some ''string'', schema_ref = None \<rparr> \<rparr>] = None"
    by (simp add: successResponse_def opWithResponses_def textResponse_def namedSchema_def)
  from returnType_resolution[of "opWithResponses Map.empty"] h1
  have a: "inferReturnType (opWithResponses Map.empty) = ''void''" by blast
  from returnType_resolution[of "opWithResponses [''200'' \<mapsto> \<lparr> resp_description = ''No Content'', resp_content = None \<rparr>]"] h2
  have b: "inferReturnType (opWithResponses [''200'' \<mapsto> \<lparr> resp_description = ''No Content'', resp_content = None \<rparr>]) = ''void''"
    by blast
  from returnType_resolution[of "opWithResponses [''201'' \<mapsto> refResponse ''#/components/schemas/Pet'']"] h3
  have c: "inferReturnType (opWithResponses [''201'' \<mapsto> refResponse ''#/components/schemas/Pet'']) = ''Pet''"
    by blast
  from returnType_resolution[of "opWithResponses [''200'' \<mapsto> textResponse]"] h4
  have d: "inferReturnType (opWithResponses [''200'' \<mapsto> textResponse]) = ''Object''"
    by blast
  from a b c d show ?thesis by simp
qed

text \<open>
  A \<open>200\<close> response whose content is \<open>text/plain\<close> only: there is no JSON body, and the
  return type is \<open>Object\<close>, not \<open>void\<close>.
\<close>

theorem returnType_text_counterexample:
  "successResponse (opWithResponses [''200'' \<mapsto> textResponse]) = Some textResponse
   \<and> resp_content textResponse \<noteq> None
   \<and> the (resp_content textResponse) ''application/json'' = None
   \<and> inferReturnType (opWithResponses [''200'' \<mapsto> textResponse]) = ''Object''"
  by (simp add: successResponse_def opWithResponses_def textResponse_def inferReturnType_def)

lemma pushNew_idem: "pushNew (pushNew xs x) x = pushNew xs x"
  by (simp add: pushNew_def)

lemma matchOperation_eq:
  "matchOperation (split_ws (toLowerCase intent)) (matchedActions (toLowerCase intent)) pk verb op acc =
     (if operationMatches intent (pk, verb, op) then pushNew acc (the (operationId op)) else acc)"
  by (auto simp add: matchOperation_def operationMatches_def Let_def pushNew_idem)

lemma fold_pushNew_firstSeen: "fold (\<lambda>x acc. pushNew acc x) xs [] = firstSeen xs"
proof (induction xs rule: rev_induct)
  case Nil
  then show ?case by (simp add: firstSeen_def)
next
  case (snoc x xs)
  have "set (firstSeen xs) = set xs" by (simp add: firstSeen_def)
  then show ?case
    using snoc by (simp add: firstSeen_def pushNew_def)
qed

lemma remdups_snoc: "remdups (ys @ [x]) = remdups (filter (\<lambda>y. y \<noteq> x) ys) @ [x]"
  by (induction ys) auto

lemma firstSeen_Cons: "firstSeen (x # xs) = x # firstSeen (filter (\<lambda>y. y \<noteq> x) xs)"
  by (simp add: firstSeen_def rev_filter remdups_snoc)

lemma matchPathItem_char:
  "matchPathItem (split_ws (toLowerCase intent)) (matchedActions (toLowerCase intent)) pk item acc =
     fold (\<lambda>x acc. pushNew acc x)
       (map (\<lambda>(verb, op). the (operationId op))
          (filter (\<lambda>(verb, op). operationMatches intent (pk, verb, op)) (wellFormedEntries item)))
       acc"
proof (induction item arbitrary: acc)
  case Nil
  then show ?case by (simp add: wellFormedEntries_def)
next
  case (Cons a item)
  obtain verb entry where a: "a = (verb, entry)" by (cases a)
  have wf: "wellFormedEntries ((verb, entry) # item) =
              (case entry of ScalarEntry \<Rightarrow> []
               | ObjectEntry op \<Rightarrow> if truthy (operationId op) then [(verb, op)] else [])
              @ wellFormedEntries item"
    by (simp add: wellFormedEntries_def)
  show ?case
    unfolding a wf
    by (cases entry) (simp_all add: Cons.IH matchOperation_eq)
qed

lemma matchPaths_char:
  "matchPaths (split_ws (toLowerCase intent)) (matchedActions (toLowerCase intent)) ps acc =
     fold (\<lambda>x acc. pushNew acc x)
       (map idOf (filter (operationMatches intent)
          (concat (map (\<lambda>(pathKey, item). map (\<lambda>(verb, op). (pathKey, verb, op)) (wellFormedEntries item)) ps))))
       acc"
proof (induction ps arbitrary: acc)
  case Nil
  then show ?case by simp
next
  case (Cons a ps)
  obtain pk item where a: "a = (pk, item)" by (cases a)
  show ?case
    unfolding a
    by (simp add: Cons.IH matchPathItem_char filter_map comp_def idOf_def case_prod_unfold)
qed

lemma matchedOperations_char:
  "matchPaths (split_ws (toLowerCase intent)) (matchedActions (toLowerCase intent))
     (case paths spec of None \<Rightarrow> [] | Some ps \<Rightarrow> ps) [] = matchedIds intent spec"
  by (simp add: matchPaths_char fold_pushNew_firstSeen matchedIds_def wellFormedOperations_def)

lemma analyze_char:
  "analyzeIntentAndCreateTasks now intent spec =
     (if matchedIds intent spec = [] then []
      else [\<lparr> task_id = ''task-'' @ showNat now,
              task_title = extractTaskTitle intent,
              task_description = ''Implement: '' @ intent,
              task_status = Pending,
              task_operations = matchedIds intent spec \<rparr>])"
  by (simp add: analyzeIntentAndCreateTasks_def Let_def matchedOperations_char)

lemma matchedIds_set:
  "set (matchedIds intent spec) =
     idOf ` {e \<in> set (wellFormedOperations spec). operationMatches intent e}"
  by (auto simp: matchedIds_def firstSeen_def)

lemma matchedIds_distinct: "distinct (matchedIds intent spec)"
  by (simp add: matchedIds_def firstSeen_def)

lemma matchedIds_empty:
  "matchedIds intent spec = [] \<longleftrightarrow> \<not> list_ex (operationMatches intent) (wellFormedOperations spec)"
proof -
  have "matchedIds intent spec = [] \<longleftrightarrow> set (matchedIds intent spec) = {}" by simp
  also have "\<dots> \<longleftrightarrow> \<not> list_ex (operationMatches intent) (wellFormedOperations spec)"
    unfolding matchedIds_set by (auto simp: list_ex_iff)
  finally show ?thesis .
qed

lemma words_pets:
  "split_ws (toLowerCase ''create and list all pets'') = [''create'', ''and'', ''list'', ''all'', ''pets'']"
  by code_simp

lemma actions_pets:
  "matchedActions (toLowerCase ''create and list all pets'') = [''create'', ''list'']"
  by code_simp

lemma entityMatch_by_id:
  assumes "w \<in> set ws" and "length w > 2"
    and "includes_str (toLowerCase opId) w"
  shows "entityMatch ws pk (mkOp opId s t)"
  using assms by (auto simp: entityMatch_def mkOp_def Let_def list_ex_iff)

lemma directMatch_mkOp: "directMatch ws (mkOp opId s t) = directMatch ws (mkOp opId None None)"
  by (simp add: directMatch_def mkOp_def)

lemma listPets_has_list: "includes_str (toLowerCase ''listPets'') ''list''"
  by code_simp

lemma createPet_has_create: "includes_str (toLowerCase ''createPet'') ''create''"
  by code_simp

lemma action_listPets: "actionMatch [''create'', ''list''] ''/pets'' ''get''"
  by code_simp

lemma action_createPet: "actionMatch [''create'', ''list''] ''/pets'' ''post''"
  by code_simp

lemma action_getPet: "\<not> actionMatch [''create'', ''list''] ''/pets/{id}'' ''get''"
  by code_simp

lemma direct_getPet:
  "\<not> directMatch [''create'', ''and'', ''list'', ''all'', ''pets''] (mkOp ''getPet'' None None)"
  by code_simp

lemma matches_listPets:
  "operationMatches ''create and list all pets'' (''/pets'', ''get'', mkOp ''listPets'' s t)"
  unfolding operationMatches_def Let_def words_pets actions_pets fst_conv snd_conv
  using entityMatch_by_id[OF _ _ listPets_has_list, of "[''create'', ''and'', ''list'', ''all'', ''pets'']"]
        action_listPets
  by simp

lemma matches_createPet:
  "operationMatches ''create and list all pets'' (''/pets'', ''post'', mkOp ''createPet'' s t)"
  unfolding operationMatches_def Let_def words_pets actions_pets fst_conv snd_conv
  using entityMatch_by_id[OF _ _ createPet_has_create, of "[''create'', ''and'', ''list'', ''all'', ''pets'']"]
        action_createPet
  by simp

lemma not_matches_getPet:
  "\<not> operationMatches ''create and list all pets'' (''/pets/{id}'', ''get'', mkOp ''getPet'' s t)"
  unfolding operationMatches_def Let_def words_pets actions_pets fst_conv snd_conv
  using action_getPet direct_getPet directMatch_mkOp[of _ "''getPet''" s t]
  by simp

lemma matchedIds_pets:
  "matchedIds ''create and list all pets'' (petsSpec s1 t1 s2 t2 s3 t3) = [''listPets'', ''createPet'']"
  by (simp add: matchedIds_def petsSpec_wellFormed matches_listPets matches_createPet
        not_matches_getPet idOf_mkOp firstSeen_def)

lemma title_pets: "extractTaskTitle ''create and list all pets'' = ''Create and list all pets''"
  by code_simp

text \<open>
  Claim C5. For the contract with exactly \<open>listPets\<close> (GET \<open>/pets\<close>), \<open>createPet\<close>
  (POST \<open>/pets\<close>) and \<open>getPet\<close> (GET \<open>/pets/{id}\<close>), whatever their summaries and tags,
  planning the intent \<open>create and list all pets\<close> yields one task whose operations are
  \<open>listPets\<close> and \<open>createPet\<close>; \<open>getPet\<close> is not among them.
\<close>

theorem plan_pets_example:
  "analyzeIntentAndCreateTasks now ''create and list all pets'' (petsSpec s1 t1 s2 t2 s3 t3) =
     [\<lparr> task_id = ''task-'' @ showNat now,
        task_title = ''Create and list all pets'',
        task_description = ''Implement: create and list all pets'',
        task_status = Pending,
        task_operations = [''listPets'', ''createPet''] \<rparr>]
   \<and> set (task_operations (hd (analyzeIntentAndCreateTasks now ''create and list all pets''
            (petsSpec s1 t1 s2 t2 s3 t3)))) = {''createPet'', ''listPets''}
   \<and> ''getPet'' \<notin> set (task_operations (hd (analyzeIntentAndCreateTasks now
            ''create and list all pets'' (petsSpec s1 t1 s2 t2 s3 t3))))"
  by (auto simp add: analyze_char matchedIds_pets title_pets)

lemma pets_launch:
  "analyzeIntentAndCreateTasks now ''launch rockets'' (petsSpec None None None None None None) = []"
proof -
  have "matchedIds ''launch rockets'' (petsSpec None None None None None None) = []"
    by code_simp
  then show ?thesis by (simp add: analyze_char)
qed

text \<open>
  Claim C6. The planner returns at most one task. The result is empty exactly when no
  well-formed operation of the contract matches the intent, as for \<open>launch rockets\<close>
  against the pets contract. Otherwise it is one task with status \<open>pending\<close> whose
  operations are the ids of the matched operations, each once, in the order in which
  the traversal of the document first meets them.
\<close>

theorem plan_at_most_one_task:
  "analyzeIntentAndCreateTasks now intent spec =
     (if matchedIds intent spec = [] then []
      else [\<lparr> task_id = ''task-'' @ showNat now,
              task_title = extractTaskTitle intent,
              task_description = ''Implement: '' @ intent,
              task_status = Pending,
              task_operations = matchedIds intent spec \<rparr>])
   \<and> length (analyzeIntentAndCreateTasks now intent spec) \<le> 1
   \<and> (analyzeIntentAndCreateTasks now intent spec = [] \<longleftrightarrow>
        \<not> list_ex (operationMatches intent) (wellFormedOperations spec))
   \<and> distinct (matchedIds intent spec)
   \<and> set (matchedIds intent spec) =
        idOf ` {e \<in> set (wellFormedOperations spec). operationMatches intent e}
   \<and> analyzeIntentAndCreateTasks now ''launch rockets''
        (petsSpec None None None None None None) = []"
  using matchedIds_empty[of intent spec] matchedIds_distinct[of intent spec]
        matchedIds_set[of intent spec] pets_launch[of now]
  by (simp add: analyze_char)

lemma scanLines_enumerate:
  "scanLines r language filePath i ls acc =
     acc @ map (\<lambda>jl. violationText r filePath (fst jl))
             (filter (\<lambda>jl. \<not> isComment (snd jl) language \<and> test (rule_pattern r) (snd jl)
                          \<and> \<not> shouldSkip r (snd jl))
                (enumerate i ls))"
  by (induction ls arbitrary: i acc) simp_all

lemma enumerate_index: "enumerate 0 ls = map (\<lambda>j. (j, ls ! j)) [0..<length ls]"
  by (rule nth_equalityI) (simp_all add: nth_enumerate_eq)

lemma scanLines_char:
  "scanLines r language filePath 0 ls acc =
     acc @ map (violationText r filePath)
             (filter (\<lambda>j. \<not> isComment (ls ! j) language \<and> test (rule_pattern r) (ls ! j)
                          \<and> \<not> shouldSkip r (ls ! j))
                [0..<length ls])"
  by (simp add: scanLines_enumerate enumerate_index filter_map comp_def)

lemma scanRules_char:
  "scanRules rs language filePath ls acc =
     acc @ concat (map (\<lambda>r. map (violationText r filePath)
                              (filter (\<lambda>i. reportsLine r language (ls ! i)) [0..<length ls])) rs)"
proof (induction rs arbitrary: acc)
  case Nil
  then show ?case by simp
next
  case (Cons r rs)
  show ?case
    by (cases "applicable r language") (simp_all add: Cons.IH scanLines_char reportsLine_def)
qed

lemma validateFile_char:
  "validateFile rules fileContent language filePath =
     concat (map (\<lambda>r. map (violationText r filePath)
                    (filter (\<lambda>i. reportsLine r language (split_char (CHR 0x0A) fileContent ! i))
                       [0..<length (split_char (CHR 0x0A) fileContent)])) rules)"
  by (simp add: validateFile_def scanRules_char)

lemma validateFile_mem:
  "v \<in> set (validateFile rules fileContent language filePath) \<longleftrightarrow>
     (\<exists>r \<in> set rules. \<exists>i. i < length (split_char (CHR 0x0A) fileContent)
        \<and> reportsLine r language (split_char (CHR 0x0A) fileContent ! i)
        \<and> v = violationText r filePath i)"
  unfolding validateFile_char by auto

lemma validateEntries_char:
  "validateEntries rules files acc =
     acc @ concat (map (\<lambda>(filePath, fileContent).
                     if skippedFile filePath then []
                     else validateFile rules fileContent (inferLanguage filePath) (Some filePath)) files)"
proof (induction files arbitrary: acc)
  case Nil
  then show ?case by simp
next
  case (Cons f files)
  obtain p c where f: "f = (p, c)" by (cases f)
  show ?case unfolding f by (simp add: Cons.IH skippedFile_def)
qed

lemma validate_char:
  "validate rules files =
     concat (map (\<lambda>(filePath, fileContent).
               if skippedFile filePath then []
               else validateFile rules fileContent (inferLanguage filePath) (Some filePath)) files)"
  by (simp add: validate_def validateEntries_char)

lemma validate_append: "validate rules (xs @ ys) = validate rules xs @ validate rules ys"
  by (simp add: validate_char)

lemma validate_filter:
  "validate rules files = validate rules (filter (\<lambda>f. \<not> skippedFile (fst f)) files)"
  unfolding validate_char by (induction files) auto

lemma skippedFile_xml: "skippedFile (p @ ''.xml'')" and skippedFile_pom: "skippedFile (p @ ''.pom'')"
  by (simp_all add: skippedFile_def endsWith_def suffix_def)

lemma fetch_in_ts:
  "validate guardrailRules [(''client.ts'', fetchLine)] =
     [''[no-fetch] client.ts:1: Direct fetch() calls are not allowed. Use the SDK instead.'',
      ''[no-raw-url] client.ts:1: Hardcoded URLs detected. API calls should go through the SDK.'']"
  by code_simp

lemma fetch_in_comment: "validate guardrailRules [(''client.ts'', ''// '' @ fetchLine)] = []"
  by code_simp

lemma basePath_matches: "test (rule_pattern (guardrailRules ! 6)) basePathLine"
  by code_simp

lemma basePath_name: "rule_name (guardrailRules ! 6) = ''no-raw-url''"
  by code_simp

lemma basePath_skipped: "validate guardrailRules [(''client.ts'', basePathLine)] = []"
  by code_simp

lemma xml_matches: "validate guardrailRules [(''settings.txt'', xmlLine)] =
  [''[no-raw-url] settings.txt:1: Hardcoded URLs detected. API calls should go through the SDK.'']"
  by code_simp

text \<open>
  Claim C7. The violations of a file are, rule by rule and line by line, the texts of
  exactly the pairs of a rule and a line for which the rule applies to the language (a
  rule without languages applies to all), the line is not a comment, the line matches
  the rule's pattern and none of the rule's skip patterns matches the line. In a \<open>.ts\<close>
  file the line \<open>const res = await fetch("https://api.example.com/x")\<close> is reported by
  \<open>no-fetch\<close>; behind \<open>//\<close> it is not reported; and the line
  \<open>basePath: "https://api.example.com"\<close> matches the pattern of \<open>no-raw-url\<close> and is not
  reported.
\<close>

theorem guardrail_line_rule:
  "validateFile rules fileContent language filePath =
     concat (map (\<lambda>r. map (violationText r filePath)
                    (filter (\<lambda>i. reportsLine r language (split_char (CHR 0x0A) fileContent ! i))
                       [0..<length (split_char (CHR 0x0A) fileContent)])) rules)
   \<and> (v \<in> set (validateFile rules fileContent language filePath) \<longleftrightarrow>
        (\<exists>r \<in> set rules. \<exists>i. i < length (split_char (CHR 0x0A) fileContent)
           \<and> reportsLine r language (split_char (CHR 0x0A) fileContent ! i)
           \<and> v = violationText r filePath i))
   \<and> ''[no-fetch] client.ts:1: Direct fetch() calls are not allowed. Use the SDK instead.''
        \<in> set (validate guardrailRules [(''client.ts'', fetchLine)])
   \<and> validate guardrailRules [(''client.ts'', ''// '' @ fetchLine)] = []
   \<and> rule_name (guardrailRules ! 6) = ''no-raw-url''
   \<and> test (rule_pattern (guardrailRules ! 6)) basePathLine
   \<and> validate guardrailRules [(''client.ts'', basePathLine)] = []"
  using validateFile_char[of rules fileContent language filePath]
        validateFile_mem[of v rules fileContent language filePath]
        fetch_in_comment basePath_matches basePath_name basePath_skipped
  by (simp add: fetch_in_ts)

text \<open>
  Claim C10. \<open>validate\<close> reports nothing for a file whose path ends in \<open>.xml\<close> or
  \<open>.pom\<close>: the violations of a file map are those of the map without such files,
  whatever they contain. A quoted URL that \<open>no-raw-url\<close> reports in \<open>settings.txt\<close> is
  not reported in \<open>pom.xml\<close>.
\<close>

theorem validate_skips_xml:
  "validate rules files = validate rules (filter (\<lambda>f. \<not> skippedFile (fst f)) files)
   \<and> validate rules (xs @ [(p @ ''.xml'', fileContent)] @ ys) = validate rules (xs @ ys)
   \<and> validate rules (xs @ [(p @ ''.pom'', fileContent)] @ ys) = validate rules (xs @ ys)
   \<and> validate guardrailRules [(''pom.xml'', xmlLine)] = []
   \<and> validate guardrailRules [(''settings.txt'', xmlLine)] \<noteq> []"
proof -
  have a: "validate rules [(p @ ''.xml'', fileContent)] = []"
    by (simp add: validate_char skippedFile_xml)
  have b: "validate rules [(p @ ''.pom'', fileContent)] = []"
    by (simp add: validate_char skippedFile_pom)
  have c: "validate guardrailRules [(''pom.xml'', xmlLine)] = []"
    using validate_char[of guardrailRules "[(''pom.xml'', xmlLine)]"] skippedFile_xml[of "''pom''"]
    by simp
  have a': "validate rules (xs @ [(p @ ''.xml'', fileContent)] @ ys) = validate rules (xs @ ys)"
    unfolding validate_append a by simp
  have b': "validate rules (xs @ [(p @ ''.pom'', fileContent)] @ ys) = validate rules (xs @ ys)"
    unfolding validate_append b by simp
  have d: "validate guardrailRules [(''settings.txt'', xmlLine)] \<noteq> []"
    by (simp add: xml_matches)
  from validate_filter[of rules files] a' b' c d show ?thesis by blast
qed

lemma runQuery_only_second:
  "runQuery (queryAppends twoQuery) [''b'' \<mapsto> ''1''] ''/pets'' = ''/pets?&b=1''"
  by (simp add: runQuery_def queryAppends_def twoQuery_def runQueryAppend_def)

lemma render_second:
  \<open>renderQueryAppend (queryAppends twoQuery ! 1) =
     ''        if (b != null) {\<newline>            query.append("&").append("b=").append(b);\<newline>        }''\<close>
  by code_simp

text \<open>
  Claim C1, at the input where the code departs from it. For an operation with the
  query parameters \<open>a\<close> and \<open>b\<close>, the statement emitted for \<open>b\<close> appends the literal
  \<open>"&"\<close> whether or not anything was appended before. Called with \<open>a\<close> absent and
  \<open>b = 1\<close>, the emitted block turns \<open>/pets\<close> into \<open>/pets?&b=1\<close>, not \<open>/pets?b=1\<close>.
\<close>

theorem query_leading_ampersand:
  \<open>renderQueryAppend (queryAppends twoQuery ! 1) =
     ''        if (b != null) {\<newline>            query.append("&").append("b=").append(b);\<newline>        }''
   \<and> runQuery (queryAppends twoQuery) [''b'' \<mapsto> ''1''] ''/pets'' = ''/pets?&b=1''
   \<and> runQuery (queryAppends twoQuery) [''b'' \<mapsto> ''1''] ''/pets'' \<noteq> ''/pets?b=1''\<close>
proof -
  have "runQuery (queryAppends twoQuery) [''b'' \<mapsto> ''1''] ''/pets'' \<noteq> ''/pets?b=1''"
    by (simp add: runQuery_only_second)
  with render_second runQuery_only_second show ?thesis by blast
qed

lemma handleResponse_2xx:
  "200 \<le> statusCode \<Longrightarrow> statusCode < 300 \<Longrightarrow> handleResponse statusCode b = Inr (Some b)"
  by (simp add: handleResponse_def)

lemma handleResponse_other:
  "statusCode < 200 \<or> 300 \<le> statusCode \<Longrightarrow>
   handleResponse statusCode b = Inl (RuntimeException (''HTTP '' @ showInt statusCode @ '': '' @ b))"
  by (auto simp add: handleResponse_def)

lemma handleResponse_never_null: "handleResponse statusCode b \<noteq> Inr None"
  by (simp add: handleResponse_def)

text \<open>
  Claim C2, at the input where the code departs from it. Status 204 lies between 200
  and 299, so the first branch of the emitted status handling takes it: the response
  body is returned, and the branch that returns \<open>null\<close> for 204 is never reached.
\<close>

theorem status_204_returns_body:
  "handleResponse 204 responseBody = Inr (Some responseBody)
   \<and> handleResponse 204 responseBody \<noteq> Inr None"
  by (simp add: handleResponse_def)

text \<open>
  Claim C9. When the contract file is read and the operations extracted from it, with
  the filter of the options or, for \<open>generate\<close>, without one, are none, generation throws
  the error \<open>No operations found in the spec\<close>; a file map is returned only when the
  extracted list is not empty.
\<close>

theorem empty_operations_error:
  "(fs (opt_specPath options) = Some specContent \<and> load specContent = Inr spec
      \<and> extractOperations spec (opt_operations options) = Inr []
     \<longrightarrow> generateForOperations this load pathJoin fs options
           = Inl (Error ''No operations found in the spec''))
   \<and> (fs (opt_specPath options) = Some specContent \<and> load specContent = Inr spec
         \<and> extractOperations spec None = Inr []
        \<longrightarrow> generate this load pathJoin fs options = Inl (Error ''No operations found in the spec''))
   \<and> (\<forall>files fs'. generateForOperations this load pathJoin fs options = Inr (files, fs')
        \<longrightarrow> (\<exists>c s ops. fs (opt_specPath options) = Some c \<and> load c = Inr s
                   \<and> extractOperations s (opt_operations options) = Inr ops \<and> ops \<noteq> []))"
  by (auto simp add: generateForOperations_def generate_def Let_def
           split: option.splits sum.splits if_splits)

theorem empty_operations_error_witness:
  "generateForOperations newConsumerGenerator
       (\<lambda>c. Inr (loadedSpec (petsSpec None None None None None None))) joinSlash
       [''openapi.yaml'' \<mapsto> ''openapi: 3.0.0''] (petsOptions (Some [''deletePet'']))
     = Inl (Error ''No operations found in the spec'')
   \<and> generate newConsumerGenerator (\<lambda>c. Inr emptySpec) joinSlash
       [''openapi.yaml'' \<mapsto> ''openapi: 3.0.0''] (petsOptions (Some [''deletePet'']))
     = Inl (Error ''No operations found in the spec'')
   \<and> (\<exists>files fs'. generateForOperations newConsumerGenerator
         (\<lambda>c. Inr (loadedSpec (petsSpec None None None None None None)))
         joinSlash [''openapi.yaml'' \<mapsto> ''openapi: 3.0.0''] (petsOptions (Some [''getPet'']))
         = Inr (files, fs'))"
proof -
  let ?fs = "[''openapi.yaml'' \<mapsto> ''openapi: 3.0.0'']"
  let ?pets = "loadedSpec (petsSpec None None None None None None)"
  have e1: "extractOperations ?pets (Some [''deletePet'']) = Inr []"
    by code_simp
  have e2: "extractOperations emptySpec None = Inr []"
    by code_simp
  have h1: "?fs (opt_specPath (petsOptions (Some [''deletePet'']))) = Some ''openapi: 3.0.0''
            \<and> (\<lambda>c. Inr ?pets) ''openapi: 3.0.0'' = (Inr ?pets :: error + LoadedSpec)
            \<and> extractOperations ?pets (opt_operations (petsOptions (Some [''deletePet'']))) = Inr []"
    by (simp add: petsOptions_def e1)
  have h2: "?fs (opt_specPath (petsOptions (Some [''deletePet'']))) = Some ''openapi: 3.0.0''
            \<and> (\<lambda>c. Inr emptySpec) ''openapi: 3.0.0'' = (Inr emptySpec :: error + LoadedSpec)
            \<and> extractOperations emptySpec None = Inr []"
    by (simp add: petsOptions_def e2)
  from empty_operations_error[of ?fs "petsOptions (Some [''deletePet''])" "''openapi: 3.0.0''"
         "\<lambda>c. Inr ?pets" ?pets newConsumerGenerator joinSlash] h1
  have a: "generateForOperations newConsumerGenerator (\<lambda>c. Inr ?pets) joinSlash ?fs
             (petsOptions (Some [''deletePet'']))
            = Inl (Error ''No operations found in the spec'')"
    by blast
  from empty_operations_error[of ?fs "petsOptions (Some [''deletePet''])" "''openapi: 3.0.0''"
         "\<lambda>c. Inr emptySpec" emptySpec newConsumerGenerator joinSlash] h2
  have b: "generate newConsumerGenerator (\<lambda>c. Inr emptySpec) joinSlash ?fs
             (petsOptions (Some [''deletePet'']))
            = Inl (Error ''No operations found in the spec'')"
    by blast
  have e3: "\<exists>d ds. extractOperations ?pets (Some [''getPet'']) = Inr (d # ds)"
  proof -
    have "extractOperations ?pets (Some [''getPet'']) =
            Inr (map descriptorOf (filter (\<lambda>e. keeps (Some [''getPet'']) (idOf e))
                   (wellFormedOperations (petsSpec None None None None None None))))"
      by (rule extractOperations_typed)
    then show ?thesis
      by (simp add: petsSpec_wellFormed keeps_def idOf_mkOp)
  qed
  have c: "\<exists>files fs'. generateForOperations newConsumerGenerator (\<lambda>c. Inr ?pets) joinSlash ?fs
             (petsOptions (Some [''getPet''])) = Inr (files, fs')"
    using e3 by (auto simp add: generateForOperations_def petsOptions_def Let_def)
  from a b c show ?thesis by blast
qed

end
